theory Spec2Isabelle
  imports Main
begin

section \<open>Theme context (ThemeProvider)\<close>

text \<open>
  The browser facilities the theme context touches: \<open>localStorage\<close> (a map from keys to
  values, \<open>getItem\<close> of a missing key is \<open>null\<close>, here \<open>None\<close>), \<open>window.matchMedia\<close>
  (absent in some environments, here \<open>None\<close>; otherwise a function from a media query to
  its \<open>matches\<close> flag) and the \<open>data-theme\<close> attribute of the document element.
\<close>

record browser =
  localStorage :: "string \<rightharpoonup> string"
  matchMedia :: "(string \<Rightarrow> bool) option"
  data_theme :: "string option"

definition THEME_STORAGE_KEY :: string where
  "THEME_STORAGE_KEY = ''memory-ai-theme''"

text \<open>\<open>window.matchMedia && window.matchMedia('(prefers-color-scheme: dark)').matches\<close>\<close>

definition prefersDark :: "browser \<Rightarrow> bool" where
  "prefersDark b =
     (case matchMedia b of
        None \<Rightarrow> False
      | Some mm \<Rightarrow> mm ''(prefers-color-scheme: dark)'')"

definition getInitialTheme :: "browser \<Rightarrow> string" where
  "getInitialTheme b =
     (case localStorage b THEME_STORAGE_KEY of
        Some stored \<Rightarrow>
          if stored = ''light'' \<or> stored = ''dark'' then stored
          else if prefersDark b then ''dark'' else ''light''
      | None \<Rightarrow> if prefersDark b then ''dark'' else ''light'')"

text \<open>
  The provider holds the \<open>theme\<close> state next to the browser it writes to. The effect
  \<open>useEffect(..., [theme])\<close> runs after the first render and after every render in which
  \<open>theme\<close> has changed: it sets the attribute and stores the theme.
\<close>

record theme_provider =
  theme :: string
  env :: browser

definition theme_effect :: "theme_provider \<Rightarrow> theme_provider" where
  "theme_effect s =
     s\<lparr>env := (env s)\<lparr>data_theme := Some (theme s),
                       localStorage := (localStorage (env s))(THEME_STORAGE_KEY \<mapsto> theme s)\<rparr>\<rparr>"

definition mount :: "browser \<Rightarrow> theme_provider" where
  "mount b = theme_effect \<lparr>theme = getInitialTheme b, env = b\<rparr>"

text \<open>
  \<open>setTheme\<close> is React's state setter: it takes the next value or an updater applied
  to the previous value; a next value equal to the current one causes no re-render, so
  the effect does not run.
\<close>

datatype theme_update = Next string | Updater "string \<Rightarrow> string"

definition setTheme :: "theme_update \<Rightarrow> theme_provider \<Rightarrow> theme_provider" where
  "setTheme u s =
     (let next = (case u of Next v \<Rightarrow> v | Updater f \<Rightarrow> f (theme s))
      in if next = theme s then s else theme_effect (s\<lparr>theme := next\<rparr>))"

text \<open>The updater of \<open>toggleTheme\<close>: \<open>prev => (prev === 'dark' ? 'light' : 'dark')\<close>\<close>

definition toggle_updater :: "string \<Rightarrow> string" where
  "toggle_updater prev = (if prev = ''dark'' then ''light'' else ''dark'')"

definition toggleTheme :: "theme_provider \<Rightarrow> theme_provider" where
  "toggleTheme s = setTheme (Updater toggle_updater) s"

definition isDark :: "theme_provider \<Rightarrow> bool" where
  "isDark s = (theme s = ''dark'')"

text \<open>What a consumer of the context can do to the provider.\<close>

datatype theme_action = SetTheme theme_update | ToggleTheme

fun theme_step :: "theme_action \<Rightarrow> theme_provider \<Rightarrow> theme_provider" where
  "theme_step (SetTheme u) s = setTheme u s"
| "theme_step ToggleTheme s = toggleTheme s"

definition theme_run :: "theme_action list \<Rightarrow> theme_provider \<Rightarrow> theme_provider" where
  "theme_run acts s = fold theme_step acts s"

definition stored_theme :: "theme_provider \<Rightarrow> string option" where
  "stored_theme s = localStorage (env s) THEME_STORAGE_KEY"


section \<open>Registration form (Register.handleSubmit)\<close>

record register_form =
  email :: string
  username :: string
  password :: string
  confirmPassword :: string

text \<open>
  What a submit leaves behind: the \<open>validationError\<close> state, the calls made to the
  \<open>register\<close> operation of the auth context (with their arguments), and the routes
  navigated to.
\<close>

record register_page =
  validationError :: string
  register_calls :: "(string \<times> string \<times> string) list"
  navigations :: "string list"

text \<open>
  \<open>auth_register\<close> is the \<open>register\<close> of \<open>useAuth()\<close>: \<open>Inl\<close> when the promise rejects,
  \<open>Inr\<close> when it resolves. The \<open>catch\<close> swallows the rejection.
\<close>

definition handleSubmit ::
  "(string \<Rightarrow> string \<Rightarrow> string \<Rightarrow> string + 'u) \<Rightarrow> register_form \<Rightarrow> register_page \<Rightarrow> register_page"
where
  "handleSubmit auth_register formData p =
     (let p = p\<lparr>validationError := ''''\<rparr> in
      if password formData \<noteq> confirmPassword formData
      then p\<lparr>validationError := ''Passwords do not match''\<rparr>
      else if length (password formData) < 6
      then p\<lparr>validationError := ''Password must be at least 6 characters''\<rparr>
      else
        (let p = p\<lparr>register_calls := register_calls p
                      @ [(email formData, username formData, password formData)]\<rparr>
         in case auth_register (email formData) (username formData) (password formData) of
              Inr _ \<Rightarrow> p\<lparr>navigations := navigations p @ [''/chat'']\<rparr>
            | Inl _ \<Rightarrow> p))"


section \<open>Auth service (authService)\<close>

text \<open>
  The error a request of the HTTP client rejects with, as far as the service reads it:
  \<open>error.response?.status\<close> (\<open>None\<close> when there is no response), \<open>error.code\<close> and the
  error's own message.
\<close>

record http_error =
  err_status :: "nat option"
  err_code :: "string option"
  err_message :: string

datatype body = FormData "(string \<times> string) list" | Json "(string \<times> string) list"

record 'd response =
  resp_status :: nat
  data :: 'd

text \<open>The client \<open>api\<close>: \<open>post(url, body, config headers)\<close>, \<open>get(url)\<close>, \<open>delete(url)\<close>.\<close>

record 'd api =
  api_post :: "string \<Rightarrow> body \<Rightarrow> (string \<times> string) list \<Rightarrow> http_error + 'd response"
  api_get :: "string \<Rightarrow> http_error + 'd response"
  api_delete :: "string \<Rightarrow> http_error + 'd response"

text \<open>Each operation returns \<open>Inr\<close> its result or \<open>Inl\<close> the message of the \<open>Error\<close> it throws.\<close>

definition login :: "'d api \<Rightarrow> string \<Rightarrow> string \<Rightarrow> string + 'd" where
  "login api em pw =
     (case api_post api ''/auth/login'' (FormData [(''username'', em), (''password'', pw)])
             [(''Content-Type'', ''multipart/form-data'')] of
        Inr response \<Rightarrow> Inr (data response)
      | Inl error \<Rightarrow>
          if err_status error = Some 401
          then Inl ''Invalid email or password. Please check your credentials and try again.''
          else if err_status error = Some 404
          then Inl ''User not found. Please check your email or register for a new account.''
          else if err_code error = Some ''NETWORK_ERROR''
          then Inl ''Network connection failed. Please check your internet connection and try again.''
          else Inl ''Login failed. Please try again later.'')"

definition register :: "'d api \<Rightarrow> string \<Rightarrow> string \<Rightarrow> string \<Rightarrow> string + 'd" where
  "register api em un pw =
     (case api_post api ''/auth/register''
             (Json [(''email'', em), (''username'', un), (''password'', pw)]) [] of
        Inr response \<Rightarrow> Inr (data response)
      | Inl error \<Rightarrow>
          if err_status error = Some 400
          then Inl ''Invalid registration details. Please check your email, username, and password.''
          else if err_status error = Some 409
          then Inl ''Email or username already taken. Please choose a different email or username.''
          else if err_code error = Some ''NETWORK_ERROR''
          then Inl ''Network connection failed. Please check your internet connection and try again.''
          else Inl ''Registration failed. Please try again later.'')"

definition loginWithGoogle :: "'d api \<Rightarrow> (string \<times> string) list \<Rightarrow> string + 'd" where
  "loginWithGoogle api googleData =
     (case api_post api ''/auth/google'' (Json googleData) [] of
        Inr response \<Rightarrow> Inr (data response)
      | Inl error \<Rightarrow>
          if err_status error = Some 400
          then Inl ''Google authentication failed. Please try again.''
          else if err_code error = Some ''NETWORK_ERROR''
          then Inl ''Network connection failed. Please check your internet connection and try again.''
          else Inl ''Google login failed. Please try again later.'')"

definition getMe :: "'d api \<Rightarrow> string + 'd" where
  "getMe api =
     (case api_get api ''/auth/me'' of
        Inr response \<Rightarrow> Inr (data response)
      | Inl error \<Rightarrow>
          if err_status error = Some 401
          then Inl ''Authentication expired. Please log in again.''
          else if err_code error = Some ''NETWORK_ERROR''
          then Inl ''Network connection failed. Please check your internet connection and try again.''
          else Inl ''Failed to get user information. Please try again.'')"

definition refreshToken :: "'d api \<Rightarrow> string \<Rightarrow> string + 'd" where
  "refreshToken api tok =
     (case api_post api ''/auth/refresh'' (Json [(''refresh_token'', tok)]) [] of
        Inr response \<Rightarrow> Inr (data response)
      | Inl error \<Rightarrow>
          if err_status error = Some 401
          then Inl ''Refresh token expired. Please log in again.''
          else if err_code error = Some ''NETWORK_ERROR''
          then Inl ''Network connection failed. Please check your internet connection and try again.''
          else Inl ''Token refresh failed. Please log in again.'')"

definition deleteAccount :: "'d api \<Rightarrow> string + 'd response" where
  "deleteAccount api =
     (case api_delete api ''/user/delete'' of
        Inr response \<Rightarrow> Inr response
      | Inl error \<Rightarrow>
          if err_status error = Some 401
          then Inl ''Authentication required. Please log in again.''
          else if err_status error = Some 404
          then Inl ''User not found.''
          else if err_code error = Some ''NETWORK_ERROR''
          then Inl ''Network connection failed. Please check your internet connection and try again.''
          else Inl ''Account deletion failed. Please try again.'')"

text \<open>
  The six operations under one name, to speak about all of them: a call, and the message
  of the error the call throws against a given client (\<open>None\<close> when it returns).
\<close>

datatype auth_call =
    Login string string
  | Register string string string
  | LoginWithGoogle "(string \<times> string) list"
  | GetMe
  | RefreshToken string
  | DeleteAccount

definition thrown :: "string + 'a \<Rightarrow> string option" where
  "thrown r = (case r of Inl m \<Rightarrow> Some m | Inr _ \<Rightarrow> None)"

fun thrown_by :: "'d api \<Rightarrow> auth_call \<Rightarrow> string option" where
  "thrown_by api (Login em pw) = thrown (login api em pw)"
| "thrown_by api (Register em un pw) = thrown (register api em un pw)"
| "thrown_by api (LoginWithGoogle g) = thrown (loginWithGoogle api g)"
| "thrown_by api GetMe = thrown (getMe api)"
| "thrown_by api (RefreshToken tok) = thrown (refreshToken api tok)"
| "thrown_by api DeleteAccount = thrown (deleteAccount api)"

text \<open>A client every request of which rejects with the error \<open>e\<close>.\<close>

definition failing :: "http_error \<Rightarrow> 'd api" where
  "failing e = \<lparr>api_post = (\<lambda>url b h. Inl e), api_get = (\<lambda>url. Inl e),
                api_delete = (\<lambda>url. Inl e)\<rparr>"

text \<open>
  The mapping as a table, to compare the operations with: the response statuses an
  operation has a message of its own for, the message for a network failure, and the
  fallback of each operation.
\<close>

definition network_message :: string where
  "network_message =
     ''Network connection failed. Please check your internet connection and try again.''"

fun status_messages :: "auth_call \<Rightarrow> (nat \<times> string) list" where
  "status_messages (Login em pw) =
     [(401, ''Invalid email or password. Please check your credentials and try again.''),
      (404, ''User not found. Please check your email or register for a new account.'')]"
| "status_messages (Register em un pw) =
     [(400, ''Invalid registration details. Please check your email, username, and password.''),
      (409, ''Email or username already taken. Please choose a different email or username.'')]"
| "status_messages (LoginWithGoogle g) =
     [(400, ''Google authentication failed. Please try again.'')]"
| "status_messages GetMe =
     [(401, ''Authentication expired. Please log in again.'')]"
| "status_messages (RefreshToken tok) =
     [(401, ''Refresh token expired. Please log in again.'')]"
| "status_messages DeleteAccount =
     [(401, ''Authentication required. Please log in again.''),
      (404, ''User not found.'')]"

fun fallback_message :: "auth_call \<Rightarrow> string" where
  "fallback_message (Login em pw) = ''Login failed. Please try again later.''"
| "fallback_message (Register em un pw) = ''Registration failed. Please try again later.''"
| "fallback_message (LoginWithGoogle g) = ''Google login failed. Please try again later.''"
| "fallback_message GetMe = ''Failed to get user information. Please try again.''"
| "fallback_message (RefreshToken tok) = ''Token refresh failed. Please log in again.''"
| "fallback_message DeleteAccount = ''Account deletion failed. Please try again.''"

definition mapped_message :: "auth_call \<Rightarrow> http_error \<Rightarrow> string" where
  "mapped_message c e =
     (case (case err_status e of None \<Rightarrow> None | Some st \<Rightarrow> map_of (status_messages c) st) of
        Some m \<Rightarrow> m
      | None \<Rightarrow> if err_code e = Some ''NETWORK_ERROR'' then network_message
                else fallback_message c)"

definition messages_of :: "auth_call \<Rightarrow> string list" where
  "messages_of c = map snd (status_messages c) @ [network_message, fallback_message c]"


section \<open>Chat window scroll-follow (ChatWindow)\<close>

text \<open>
  The scroll container as the effects read it: pixel measures of the element behind
  \<open>scrollContainerRef\<close>; the ref is \<open>null\<close> (\<open>None\<close>) while no element is attached.
\<close>

record element =
  scrollHeight :: int
  scrollTop :: int
  clientHeight :: int

datatype scroll_behavior = Auto | Smooth

record scrollTo_options =
  opt_top :: int
  opt_behavior :: scroll_behavior

record chat_view =
  scrollContainerRef :: "element option"
  animation_frames :: "scroll_behavior list"
  scrollTo_calls :: "scrollTo_options list"

definition isNearBottom :: "chat_view \<Rightarrow> bool" where
  "isNearBottom v =
     (case scrollContainerRef v of
        None \<Rightarrow> True
      | Some el \<Rightarrow> scrollHeight el - scrollTop el - clientHeight el < 140)"

text \<open>\<open>el.scrollTo({ top: el.scrollHeight, behavior })\<close>, recorded as the call it makes.\<close>

definition scrollToBottom :: "scroll_behavior \<Rightarrow> chat_view \<Rightarrow> chat_view" where
  "scrollToBottom b v =
     (case scrollContainerRef v of
        None \<Rightarrow> v
      | Some el \<Rightarrow>
          v\<lparr>scrollTo_calls := scrollTo_calls v @ [\<lparr>opt_top = scrollHeight el, opt_behavior = b\<rparr>]\<rparr>)"

text \<open>
  The two effects. \<open>requestAnimationFrame\<close> queues the scroll for the next frame.
\<close>

definition messages_length_effect :: "chat_view \<Rightarrow> chat_view" where
  "messages_length_effect v =
     (if isNearBottom v then v\<lparr>animation_frames := animation_frames v @ [Smooth]\<rparr> else v)"

definition streamingMessage_effect :: "chat_view \<Rightarrow> chat_view" where
  "streamingMessage_effect v =
     (if isNearBottom v then v\<lparr>animation_frames := animation_frames v @ [Auto]\<rparr> else v)"

definition animation_frame :: "chat_view \<Rightarrow> chat_view" where
  "animation_frame v = fold scrollToBottom (animation_frames v) (v\<lparr>animation_frames := []\<rparr>)"

text \<open>
  A state change reaches the view as a render: React first applies the DOM update (here
  \<open>upd\<close>, what the new content does to the container's measures) and then runs the
  effects whose dependency has changed, \<open>messages.length\<close> or \<open>streamingMessage\<close>.
\<close>

datatype dependency = MessagesLength | StreamingMessage

fun run_effect :: "dependency \<Rightarrow> chat_view \<Rightarrow> chat_view" where
  "run_effect MessagesLength v = messages_length_effect v"
| "run_effect StreamingMessage v = streamingMessage_effect v"

definition render :: "(element \<Rightarrow> element) \<Rightarrow> dependency \<Rightarrow> chat_view \<Rightarrow> chat_view" where
  "render upd d v = run_effect d (v\<lparr>scrollContainerRef := map_option upd (scrollContainerRef v)\<rparr>)"

definition auto_scrolls :: "chat_view \<Rightarrow> chat_view \<Rightarrow> bool" where
  "auto_scrolls v v' = (animation_frames v' \<noteq> animation_frames v)"


section \<open>Chat engine: conversation and streaming-message state\<close>

text \<open>
  Modelled from the spec: the chat context behind \<open>useChat()\<close> (\<open>contexts/ChatContext\<close>,
  \<open>hooks/useChat\<close>) is imported by \<open>App.jsx\<close> and \<open>ChatWindow.jsx\<close> but is not among the
  sources; only its callers are. The error taxonomy is the one of section 7 of the
  specification; \<open>TransportError\<close> carries its human-readable cause.
\<close>

datatype error =
    ValidationError
  | InvalidStateError
  | ConcurrentStreamError
  | OrderingError
  | NotFoundError
  | TransportError string

text \<open>
  Modelled from the spec: the data model of section 3, which the missing chat context
  holds. A conversation is identified by its id. A message created locally has no id yet
  (the message list keys a message by \<open>message.id || index\<close>).
\<close>

record conversation =
  conv_id :: nat
  title :: string
  turn_count :: nat
  updated_at :: nat

datatype role = User | Assistant

record message =
  msg_id :: "nat option"
  conversation_id :: nat
  role :: role
  content :: string
  turn_number :: nat

datatype draft_status = Active | Completed | Cancelled | Failed

record streaming_draft =
  draft_conversation_id :: nat
  accumulated_text :: string
  status :: draft_status

text \<open>
  Modelled from the spec: the requests the missing chat context sends to the Transport
  Client (section 6): listing the conversations, loading a history, and opening and
  closing the streaming channel of a conversation.
\<close>

datatype transport_call = ListAll | LoadHistory nat | OpenStream nat string | CloseStream nat

text \<open>
  Modelled from the spec: the state owned by the missing Chat Engine (sections 2 and 3).
  The Conversation Store holds \<open>conversations\<close> and \<open>current_conversation\<close>; the Message
  Timeline holds one ordered history per conversation, \<open>timelines\<close> (a message is owned
  by the timeline of its conversation, and a draft of a conversation that is no longer
  current is promoted into that conversation's timeline); the Streaming Session holds
  \<open>draft\<close>. \<open>open_channels\<close> counts the streaming channels open at the transport and
  \<open>transport_log\<close> records every request made. The \<open>EngineState\<close> a view observes is
  \<open>conversations\<close>, \<open>current_conversation\<close>, \<open>timeline\<close>, \<open>draft\<close>, \<open>is_busy\<close>
  and \<open>last_error\<close>.
\<close>

record engine =
  conversations :: "conversation list"
  current_conversation :: "conversation option"
  timelines :: "nat \<Rightarrow> message list"
  draft :: "streaming_draft option"
  is_busy :: bool
  last_error :: "error option"
  open_channels :: nat
  transport_log :: "transport_call list"

text \<open>
  Modelled from the spec: the \<open>timeline\<close> of \<open>EngineState\<close>, absent from the sources
  with the chat context: the history of the current conversation, empty when there is
  none (section 3: it contains only messages of the current conversation).
\<close>

definition timeline :: "engine \<Rightarrow> message list" where
  "timeline e =
     (case current_conversation e of None \<Rightarrow> [] | Some c \<Rightarrow> timelines e (conv_id c))"

text \<open>
  Modelled from the spec: the state of the missing chat context at startup; the
  Streaming Session is idle (section 4.3) and nothing is loaded.
\<close>

definition initial_engine :: engine where
  "initial_engine =
     \<lparr>conversations = [], current_conversation = None, timelines = (\<lambda>c. []), draft = None,
      is_busy = False, last_error = None, open_channels = 0, transport_log = []\<rparr>"

text \<open>
  Modelled from the spec: how an operation of the missing chat context fails (section 7):
  the error is returned to the caller and the state is not touched beyond \<open>last_error\<close>.
\<close>

definition fail :: "error \<Rightarrow> engine \<Rightarrow> error option \<times> engine" where
  "fail err e = (Some err, e\<lparr>last_error := Some err\<rparr>)"

subsection \<open>Message Timeline\<close>

text \<open>
  Modelled from the spec: the current maximum turn number of a timeline of the missing
  Message Timeline (section 4.2). It is 0 for an empty timeline, so that the first message
  of a conversation gets turn number \<open>previous max + 1 = 1\<close>.
\<close>

definition max_turn :: "message list \<Rightarrow> nat" where
  "max_turn msgs = foldr max (map turn_number msgs) 0"

text \<open>
  Modelled from the spec: the insertion of the missing Message Timeline, which preserves
  the order of turn numbers, ties broken by arrival order (sections 3 and 4.2).
\<close>

definition insert_ordered :: "message \<Rightarrow> message list \<Rightarrow> message list" where
  "insert_ordered m msgs =
     takeWhile (\<lambda>x. turn_number x \<le> turn_number m) msgs
     @ m # dropWhile (\<lambda>x. turn_number x \<le> turn_number m) msgs"

text \<open>
  Modelled from the spec: \<open>append(message)\<close> of the missing Message Timeline (section
  4.2): it inserts the message into the timeline of its conversation, and rejects with
  \<open>OrderingError\<close> a message whose turn number is not greater than the current maximum
  for that conversation.
\<close>

definition append_message ::
  "message \<Rightarrow> (nat \<Rightarrow> message list) \<Rightarrow> error option \<times> (nat \<Rightarrow> message list)"
where
  "append_message m tls =
     (let msgs = tls (conversation_id m)
      in if turn_number m > max_turn msgs
         then (None, tls(conversation_id m := insert_ordered m msgs))
         else (Some OrderingError, tls))"

text \<open>
  Modelled from the spec: a sequence of \<open>append\<close> calls on the missing Message Timeline,
  each on the timelines the previous one left, whether it failed or not.
\<close>

definition appends :: "message list \<Rightarrow> (nat \<Rightarrow> message list) \<Rightarrow> (nat \<Rightarrow> message list)" where
  "appends ms tls = fold (\<lambda>m t. snd (append_message m t)) ms tls"

text \<open>
  Modelled from the spec: the invariant of section 3 on a timeline of the missing Message
  Timeline: turn numbers strictly increasing in display order.
\<close>

definition strictly_increasing :: "message list \<Rightarrow> bool" where
  "strictly_increasing msgs = sorted_wrt (<) (map turn_number msgs)"

subsection \<open>Streaming Session\<close>

text \<open>
  Modelled from the spec: the states of the missing Streaming Session (section 4.3).
  \<open>idle\<close> is the state without a draft; \<open>active\<close> the state with a draft under
  construction. The terminal states are left for \<open>idle\<close> at once, the draft being
  promoted or discarded.
\<close>

definition session_idle :: "engine \<Rightarrow> bool" where
  "session_idle e = (draft e = None)"

definition session_active :: "engine \<Rightarrow> bool" where
  "session_active e = (case draft e of None \<Rightarrow> False | Some d \<Rightarrow> status d = Active)"

text \<open>
  Modelled from the spec: \<open>begin(conversation_id, user_message)\<close> of the missing Streaming
  Session (section 4.3): while active it fails with \<open>ConcurrentStreamError\<close>; otherwise the
  user's message is appended with turn number \<open>previous max + 1\<close>, then the streaming
  channel is opened and the session is active with an empty draft.
\<close>

definition begin_session :: "nat \<Rightarrow> string \<Rightarrow> engine \<Rightarrow> error option \<times> engine" where
  "begin_session cid user_message e =
     (if session_active e then fail ConcurrentStreamError e
      else
        (let m = \<lparr>msg_id = None, conversation_id = cid, role = User, content = user_message,
                  turn_number = max_turn (timelines e cid) + 1\<rparr>
         in case append_message m (timelines e) of
              (Some err, tls) \<Rightarrow> fail err e
            | (None, tls) \<Rightarrow>
                (None, e\<lparr>timelines := tls,
                          draft := Some \<lparr>draft_conversation_id = cid, accumulated_text = '''',
                                         status = Active\<rparr>,
                          open_channels := open_channels e + 1,
                          transport_log := transport_log e @ [OpenStream cid user_message]\<rparr>)))"

text \<open>
  Modelled from the spec: every terminal transition of the missing Streaming Session
  closes the channel, clears the draft and returns to \<open>idle\<close> (sections 4.3 and 5).
\<close>

definition close_channel :: "nat \<Rightarrow> engine \<Rightarrow> engine" where
  "close_channel cid e =
     e\<lparr>draft := None, open_channels := open_channels e - 1,
       transport_log := transport_log e @ [CloseStream cid]\<rparr>"

text \<open>
  Modelled from the spec: an inbound chunk of the missing Streaming Session (section 4.3)
  is appended to the accumulated text of the active draft; without one it is dropped.
\<close>

definition on_chunk :: "string \<Rightarrow> engine \<Rightarrow> engine" where
  "on_chunk chunk e =
     (case draft e of
        None \<Rightarrow> e
      | Some d \<Rightarrow>
          if status d = Active
          then e\<lparr>draft := Some (d\<lparr>accumulated_text := accumulated_text d @ chunk\<rparr>)\<rparr>
          else e)"

text \<open>
  Modelled from the spec: the transition \<open>completed\<close> of the missing Streaming Session
  (section 4.3): at end-of-stream the accumulated text is promoted to an assistant
  message with turn number \<open>previous max + 1\<close>, appended through the Message Timeline;
  the draft is cleared and the session is idle.
\<close>

definition on_end_of_stream :: "engine \<Rightarrow> engine" where
  "on_end_of_stream e =
     (case draft e of
        None \<Rightarrow> e
      | Some d \<Rightarrow>
          if status d = Active
          then
            (let cid = draft_conversation_id d;
                 m = \<lparr>msg_id = None, conversation_id = cid, role = Assistant,
                      content = accumulated_text d,
                      turn_number = max_turn (timelines e cid) + 1\<rparr>
             in case append_message m (timelines e) of
                  (None, tls) \<Rightarrow> close_channel cid (e\<lparr>timelines := tls\<rparr>)
                | (Some err, tls) \<Rightarrow> close_channel cid (e\<lparr>last_error := Some err\<rparr>))
          else e)"

text \<open>
  Modelled from the spec: the transition \<open>cancelled\<close> of the missing Streaming Session
  (section 4.3): the channel is closed and the accumulated text discarded; cancelling
  without an active session does nothing (section 5).
\<close>

definition cancel :: "engine \<Rightarrow> engine" where
  "cancel e =
     (case draft e of
        None \<Rightarrow> e
      | Some d \<Rightarrow> if status d = Active then close_channel (draft_conversation_id d) e else e)"

text \<open>
  Modelled from the spec: the transition \<open>failed\<close> of the missing Streaming Session
  (section 4.3): on a transport error or a timeout the partial text is discarded and
  \<open>last_error\<close> is set.
\<close>

definition on_stream_failure :: "error \<Rightarrow> engine \<Rightarrow> engine" where
  "on_stream_failure err e =
     (case draft e of
        None \<Rightarrow> e
      | Some d \<Rightarrow>
          if status d = Active
          then close_channel (draft_conversation_id d) (e\<lparr>last_error := Some err\<rparr>)
          else e)"

subsection \<open>Chat Engine\<close>

text \<open>
  Modelled from the spec: the trimming of the content by the missing \<open>sendMessage\<close>
  (section 4.4): white space is removed at both ends.
\<close>

definition is_space :: "char \<Rightarrow> bool" where
  "is_space c = (c \<in> set [CHR '' '', CHR 0x09, CHR 0x0A, CHR 0x0B, CHR 0x0C, CHR 0x0D])"

definition trim :: "string \<Rightarrow> string" where
  "trim s = rev (dropWhile is_space (rev (dropWhile is_space s)))"

text \<open>
  Modelled from the spec: \<open>sendMessage(content)\<close> of the missing Chat Engine, in the words
  of its contract (section 4.4): it requires a current conversation and an idle
  Streaming Session, otherwise it fails with \<open>InvalidStateError\<close>; it then validates that
  the content is not empty after trimming, otherwise it fails with \<open>ValidationError\<close>;
  on success it begins a Streaming Session.
\<close>

definition sendMessage :: "string \<Rightarrow> engine \<Rightarrow> error option \<times> engine" where
  "sendMessage content_text e =
     (case current_conversation e of
        None \<Rightarrow> fail InvalidStateError e
      | Some c \<Rightarrow>
          if \<not> session_idle e then fail InvalidStateError e
          else if trim content_text = '''' then fail ValidationError e
          else begin_session (conv_id c) content_text e)"

text \<open>
  Modelled from the spec: \<open>loadConversations()\<close> of the missing Chat Engine (sections 4.1
  and 4.4): \<open>is_busy\<close> is set during the call; the listed conversations replace the known
  set; on failure \<open>last_error\<close> is set and the prior state is left intact. The outcome of
  the request is \<open>Inr\<close> the list or \<open>Inl\<close> the transport error.
\<close>

definition loadConversations_started :: "engine \<Rightarrow> engine" where
  "loadConversations_started e =
     e\<lparr>is_busy := True, transport_log := transport_log e @ [ListAll]\<rparr>"

definition loadConversations_finished :: "error + conversation list \<Rightarrow> engine \<Rightarrow> engine" where
  "loadConversations_finished outcome e =
     (case outcome of
        Inr listed \<Rightarrow> e\<lparr>conversations := listed, is_busy := False\<rparr>
      | Inl err \<Rightarrow> e\<lparr>last_error := Some err, is_busy := False\<rparr>)"

definition loadConversations :: "error + conversation list \<Rightarrow> engine \<Rightarrow> engine" where
  "loadConversations outcome e = loadConversations_finished outcome (loadConversations_started e)"

text \<open>
  Modelled from the spec: \<open>selectConversation(conversation)\<close> of the missing Chat Engine
  (sections 4.1, 4.2 and 4.4): the history of the conversation is loaded and replaces its
  timeline, and the conversation becomes current; a draft in flight is not cancelled. A
  conversation that is not known fails with \<open>NotFoundError\<close>; a transport error of the
  load leaves the prior state untouched (section 7).
\<close>

definition selectConversation ::
  "conversation \<Rightarrow> error + message list \<Rightarrow> engine \<Rightarrow> error option \<times> engine"
where
  "selectConversation c outcome e =
     (if conv_id c \<notin> set (map conv_id (conversations e)) then fail NotFoundError e
      else
        (let e = e\<lparr>transport_log := transport_log e @ [LoadHistory (conv_id c)]\<rparr>
         in case outcome of
              Inr history \<Rightarrow>
                (None, e\<lparr>current_conversation := Some c,
                          timelines := (timelines e)(conv_id c := history)\<rparr>)
            | Inl err \<Rightarrow> fail err e))"

text \<open>
  Modelled from the spec: what can happen to the missing Chat Engine, one event at a time
  (section 5: operations run to completion, one after the other): the operations a view
  calls, with the outcome of their request, and the signals of the streaming channel.
\<close>

datatype event =
    LoadConversations "error + conversation list"
  | SelectConversation conversation "error + message list"
  | SendMessage string
  | Chunk string
  | EndOfStream
  | Cancel
  | StreamFailure error

fun step :: "event \<Rightarrow> engine \<Rightarrow> engine" where
  "step (LoadConversations outcome) e = loadConversations outcome e"
| "step (SelectConversation c outcome) e = snd (selectConversation c outcome e)"
| "step (SendMessage ct) e = snd (sendMessage ct e)"
| "step (Chunk chunk) e = on_chunk chunk e"
| "step EndOfStream e = on_end_of_stream e"
| "step Cancel e = cancel e"
| "step (StreamFailure err) e = on_stream_failure err e"

definition run :: "event list \<Rightarrow> engine \<Rightarrow> engine" where
  "run evs e = fold step evs e"

text \<open>
  The events that end a Streaming Session, and the chunks among a list of events, in
  arrival order.
\<close>

fun terminal :: "event \<Rightarrow> bool" where
  "terminal EndOfStream = True"
| "terminal Cancel = True"
| "terminal (StreamFailure err) = True"
| "terminal ev = False"

fun chunks_of :: "event list \<Rightarrow> string list" where
  "chunks_of [] = []"
| "chunks_of (Chunk chunk # evs) = chunk # chunks_of evs"
| "chunks_of (ev # evs) = chunks_of evs"

section \<open>Properties of the theme context\<close>

lemma theme_effect_theme [simp]: "theme (theme_effect s) = theme s"
  by (simp add: theme_effect_def)

lemma theme_effect_stored [simp]: "stored_theme (theme_effect s) = Some (theme s)"
  by (simp add: theme_effect_def stored_theme_def)

lemma theme_effect_other_keys:
  "k \<noteq> THEME_STORAGE_KEY \<Longrightarrow> localStorage (env (theme_effect s)) k = localStorage (env s) k"
  by (simp add: theme_effect_def)

lemma setTheme_theme:
  "theme (setTheme u s) = (case u of Next v \<Rightarrow> v | Updater f \<Rightarrow> f (theme s))"
  by (simp add: setTheme_def Let_def)

lemma setTheme_stored:
  "stored_theme s = Some (theme s) \<or> theme (setTheme u s) \<noteq> theme s
   \<Longrightarrow> stored_theme (setTheme u s) = Some (theme (setTheme u s))"
  by (auto simp: setTheme_def Let_def)

lemma setTheme_other_keys:
  "k \<noteq> THEME_STORAGE_KEY \<Longrightarrow> localStorage (env (setTheme u s)) k = localStorage (env s) k"
  by (simp add: setTheme_def Let_def theme_effect_other_keys)

lemma theme_step_stored:
  "stored_theme s = Some (theme s) \<Longrightarrow> stored_theme (theme_step a s) = Some (theme (theme_step a s))"
  by (cases a) (simp_all add: toggleTheme_def setTheme_stored)

lemma theme_step_other_keys:
  "k \<noteq> THEME_STORAGE_KEY \<Longrightarrow> localStorage (env (theme_step a s)) k = localStorage (env s) k"
  by (cases a) (simp_all add: toggleTheme_def setTheme_other_keys)

lemma theme_run_stored:
  "stored_theme s = Some (theme s) \<Longrightarrow> stored_theme (theme_run acts s) = Some (theme (theme_run acts s))"
  unfolding theme_run_def
  by (induction acts arbitrary: s) (simp_all add: theme_step_stored)

lemma theme_run_other_keys:
  "k \<noteq> THEME_STORAGE_KEY \<Longrightarrow> localStorage (env (theme_run acts s)) k = localStorage (env s) k"
  unfolding theme_run_def
  by (induction acts arbitrary: s) (simp_all add: theme_step_other_keys)

lemma mount_stored: "stored_theme (mount b) = Some (theme (mount b))"
  by (simp add: mount_def)

lemma toggleTheme_theme: "theme (toggleTheme s) = toggle_updater (theme s)"
  by (simp add: toggleTheme_def setTheme_theme)

text \<open>
  C7. At startup the theme is the value stored under the key \<open>memory-ai-theme\<close> whenever
  that value is \<open>light\<close> or \<open>dark\<close>, whatever the system prefers. Otherwise it is the
  system colour-scheme preference as \<open>window.matchMedia\<close> reports it: \<open>dark\<close> when
  \<open>matchMedia\<close> is available and the query \<open>(prefers-color-scheme: dark)\<close> matches,
  \<open>light\<close> when the query does not match or \<open>matchMedia\<close> is unavailable. The provider
  mounts with that theme. After mounting and after every change of the theme, by
  \<open>setTheme\<close> or \<open>toggleTheme\<close>, the stored value under that key is the current theme,
  and no other key of the storage is ever written.
\<close>

theorem theme_startup_and_persistence:
  "(localStorage b THEME_STORAGE_KEY = Some v \<and> (v = ''light'' \<or> v = ''dark'')
      \<longrightarrow> getInitialTheme b = v \<and> theme (mount b) = v)
   \<and> (\<not> (\<exists>w. localStorage b THEME_STORAGE_KEY = Some w \<and> (w = ''light'' \<or> w = ''dark''))
      \<longrightarrow> getInitialTheme b = (if prefersDark b then ''dark'' else ''light'')
          \<and> theme (mount b) = getInitialTheme b)
   \<and> THEME_STORAGE_KEY = ''memory-ai-theme''
   \<and> (theme (theme_step a s) \<noteq> theme s
      \<longrightarrow> stored_theme (theme_step a s) = Some (theme (theme_step a s)))
   \<and> stored_theme (theme_run acts (mount b)) = Some (theme (theme_run acts (mount b)))
   \<and> (\<forall>k. k \<noteq> THEME_STORAGE_KEY
      \<longrightarrow> localStorage (env (theme_run acts (mount b))) k = localStorage b k)
   \<and> prefersDark b = (\<exists>mm. matchMedia b = Some mm \<and> mm ''(prefers-color-scheme: dark)'')
   \<and> (\<not> (\<exists>w. localStorage b THEME_STORAGE_KEY = Some w \<and> (w = ''light'' \<or> w = ''dark''))
        \<and> matchMedia b = None
      \<longrightarrow> getInitialTheme b = ''light'')
   \<and> (\<not> (\<exists>w. localStorage b THEME_STORAGE_KEY = Some w \<and> (w = ''light'' \<or> w = ''dark''))
        \<and> matchMedia b = Some mm
      \<longrightarrow> getInitialTheme b
            = (if mm ''(prefers-color-scheme: dark)'' then ''dark'' else ''light''))
   \<and> theme (mount b) = getInitialTheme b"
proof -
  have start_stored:
    "localStorage b THEME_STORAGE_KEY = Some v \<and> (v = ''light'' \<or> v = ''dark'')
       \<longrightarrow> getInitialTheme b = v \<and> theme (mount b) = v"
    by (auto simp: getInitialTheme_def mount_def)
  have start_system:
    "\<not> (\<exists>w. localStorage b THEME_STORAGE_KEY = Some w \<and> (w = ''light'' \<or> w = ''dark''))
       \<longrightarrow> getInitialTheme b = (if prefersDark b then ''dark'' else ''light'')
           \<and> theme (mount b) = getInitialTheme b"
    by (auto simp: getInitialTheme_def mount_def split: option.splits)
  have change:
    "theme (theme_step a s) \<noteq> theme s
       \<longrightarrow> stored_theme (theme_step a s) = Some (theme (theme_step a s))"
    by (cases a) (simp_all add: toggleTheme_def setTheme_stored)
  have run: "stored_theme (theme_run acts (mount b)) = Some (theme (theme_run acts (mount b)))"
    by (rule theme_run_stored [OF mount_stored])
  have others: "\<forall>k. k \<noteq> THEME_STORAGE_KEY
      \<longrightarrow> localStorage (env (theme_run acts (mount b))) k = localStorage b k"
    by (simp add: theme_run_other_keys mount_def theme_effect_other_keys)
  have media: "prefersDark b = (\<exists>mm. matchMedia b = Some mm \<and> mm ''(prefers-color-scheme: dark)'')"
    by (simp add: prefersDark_def split: option.splits)
  have unavailable:
    "\<not> (\<exists>w. localStorage b THEME_STORAGE_KEY = Some w \<and> (w = ''light'' \<or> w = ''dark''))
        \<and> matchMedia b = None
      \<longrightarrow> getInitialTheme b = ''light''"
    using start_system by (simp add: prefersDark_def)
  have available:
    "\<not> (\<exists>w. localStorage b THEME_STORAGE_KEY = Some w \<and> (w = ''light'' \<or> w = ''dark''))
        \<and> matchMedia b = Some mm
      \<longrightarrow> getInitialTheme b
            = (if mm ''(prefers-color-scheme: dark)'' then ''dark'' else ''light'')"
    using start_system by (simp add: prefersDark_def)
  have mounted: "theme (mount b) = getInitialTheme b"
    by (simp add: mount_def)
  have key: "THEME_STORAGE_KEY = ''memory-ai-theme''"
    by (simp add: THEME_STORAGE_KEY_def)
  show ?thesis
    by (intro conjI)
       (rule start_stored start_system key change run others media unavailable available
          mounted)+
qed

theorem theme_startup_and_persistence_witness:
  "getInitialTheme \<lparr>localStorage = [''memory-ai-theme'' \<mapsto> ''light''],
                     matchMedia = Some (\<lambda>q. q = ''(prefers-color-scheme: dark)''),
                     data_theme = None\<rparr> = ''light''
   \<and> getInitialTheme \<lparr>localStorage = [''memory-ai-theme'' \<mapsto> ''blue''],
                       matchMedia = Some (\<lambda>q. q = ''(prefers-color-scheme: dark)''),
                       data_theme = None\<rparr> = ''dark''
   \<and> getInitialTheme \<lparr>localStorage = Map.empty,
                       matchMedia = Some (\<lambda>q. q = ''(prefers-color-scheme: light)''),
                       data_theme = None\<rparr> = ''light''
   \<and> getInitialTheme \<lparr>localStorage = Map.empty, matchMedia = None,
                       data_theme = None\<rparr> = ''light''
   \<and> stored_theme (theme_step ToggleTheme
         (mount \<lparr>localStorage = [''memory-ai-theme'' \<mapsto> ''light''],
                 matchMedia = Some (\<lambda>q. q = ''(prefers-color-scheme: dark)''),
                 data_theme = None\<rparr>)) = Some ''dark''
   \<and> localStorage (env (theme_run [ToggleTheme]
         (mount \<lparr>localStorage = [''memory-ai-theme'' \<mapsto> ''light''],
                 matchMedia = Some (\<lambda>q. q = ''(prefers-color-scheme: dark)''),
                 data_theme = None\<rparr>))) ''token'' = None"
proof -
  let ?dark = "\<lambda>q. q = ''(prefers-color-scheme: dark)''"
  let ?other = "\<lambda>q. q = ''(prefers-color-scheme: light)''"
  let ?b = "\<lparr>localStorage = [''memory-ai-theme'' \<mapsto> ''light''], matchMedia = Some ?dark,
             data_theme = None\<rparr>"
  let ?c = "\<lparr>localStorage = [''memory-ai-theme'' \<mapsto> ''blue''], matchMedia = Some ?dark,
             data_theme = None\<rparr>"
  let ?d = "\<lparr>localStorage = Map.empty, matchMedia = Some ?other, data_theme = None\<rparr>"
  let ?n = "\<lparr>localStorage = Map.empty, matchMedia = None, data_theme = None\<rparr>"
  note stored = theme_startup_and_persistence [of ?b "''light''" ToggleTheme "mount ?b" "[ToggleTheme]" ?dark]
  note system = theme_startup_and_persistence [of ?c "''blue''" ToggleTheme "mount ?c" "[]" ?dark]
  note nomatch = theme_startup_and_persistence [of ?d "''blue''" ToggleTheme "mount ?d" "[]" ?other]
  note nomedia = theme_startup_and_persistence [of ?n "''blue''" ToggleTheme "mount ?n" "[]" ?other]
  have key: "localStorage ?b THEME_STORAGE_KEY = Some ''light''"
    by (simp add: THEME_STORAGE_KEY_def)
  have both: "getInitialTheme ?b = ''light'' \<and> theme (mount ?b) = ''light''"
    using stored [THEN conjunct1] key by simp
  have th: "theme (mount ?b) = ''light''"
    using both by simp
  have tog: "theme (theme_step ToggleTheme (mount ?b)) = ''dark''"
    by (simp add: toggleTheme_theme th toggle_updater_def)
  have one: "getInitialTheme ?b = ''light''"
    using both by simp
  have nokey_c: "\<not> (\<exists>w. localStorage ?c THEME_STORAGE_KEY = Some w \<and> (w = ''light'' \<or> w = ''dark''))
      \<and> matchMedia ?c = Some ?dark"
    by (simp add: THEME_STORAGE_KEY_def)
  have two: "getInitialTheme ?c = ''dark''"
    using system [THEN conjunct2, THEN conjunct2, THEN conjunct2, THEN conjunct2, THEN conjunct2,
        THEN conjunct2, THEN conjunct2, THEN conjunct2, THEN conjunct1, THEN mp, OF nokey_c]
    by simp
  have nokey_d: "\<not> (\<exists>w. localStorage ?d THEME_STORAGE_KEY = Some w \<and> (w = ''light'' \<or> w = ''dark''))
      \<and> matchMedia ?d = Some ?other"
    by simp
  have three: "getInitialTheme ?d = ''light''"
    using nomatch [THEN conjunct2, THEN conjunct2, THEN conjunct2, THEN conjunct2, THEN conjunct2,
        THEN conjunct2, THEN conjunct2, THEN conjunct2, THEN conjunct1, THEN mp, OF nokey_d]
    by simp
  have nokey_n: "\<not> (\<exists>w. localStorage ?n THEME_STORAGE_KEY = Some w \<and> (w = ''light'' \<or> w = ''dark''))
      \<and> matchMedia ?n = None"
    by simp
  have four: "getInitialTheme ?n = ''light''"
    using nomedia [THEN conjunct2, THEN conjunct2, THEN conjunct2, THEN conjunct2, THEN conjunct2,
        THEN conjunct2, THEN conjunct2, THEN conjunct1, THEN mp, OF nokey_n] .
  have five: "stored_theme (theme_step ToggleTheme (mount ?b)) = Some ''dark''"
    using stored [THEN conjunct2, THEN conjunct2, THEN conjunct2, THEN conjunct1] th tog by simp
  have neq: "''token'' \<noteq> THEME_STORAGE_KEY"
    by (simp add: THEME_STORAGE_KEY_def)
  have six: "localStorage (env (theme_run [ToggleTheme] (mount ?b))) ''token'' = None"
    using stored [THEN conjunct2, THEN conjunct2, THEN conjunct2, THEN conjunct2, THEN conjunct2,
        THEN conjunct1, THEN spec, of "''token''"] neq key
    by simp
  from one two three four five six show ?thesis by blast
qed

text \<open>
  C10. \<open>toggleTheme\<close> turns the theme \<open>dark\<close> into \<open>light\<close> and every other theme into
  \<open>dark\<close>; on the themes \<open>light\<close> and \<open>dark\<close>, toggling twice gives the theme back.
\<close>

theorem toggleTheme_involution:
  "(theme s = ''dark'' \<longrightarrow> theme (toggleTheme s) = ''light'')
   \<and> (theme s \<noteq> ''dark'' \<longrightarrow> theme (toggleTheme s) = ''dark'')
   \<and> (theme s = ''light'' \<or> theme s = ''dark''
      \<longrightarrow> theme (toggleTheme (toggleTheme s)) = theme s)"
  by (auto simp: toggleTheme_theme toggle_updater_def)

theorem toggleTheme_involution_witness:
  "theme (toggleTheme \<lparr>theme = ''dark'', env = \<lparr>localStorage = Map.empty, matchMedia = None,
                                                data_theme = None\<rparr>\<rparr>) = ''light''
   \<and> theme (toggleTheme \<lparr>theme = ''sepia'', env = \<lparr>localStorage = Map.empty,
                              matchMedia = None, data_theme = None\<rparr>\<rparr>) = ''dark''
   \<and> theme (toggleTheme (toggleTheme \<lparr>theme = ''light'', env = \<lparr>localStorage = Map.empty,
                              matchMedia = None, data_theme = None\<rparr>\<rparr>)) = ''light''"
  using
    toggleTheme_involution
      [of "\<lparr>theme = ''dark'', env = \<lparr>localStorage = Map.empty, matchMedia = None,
                                       data_theme = None\<rparr>\<rparr>"]
    toggleTheme_involution
      [of "\<lparr>theme = ''sepia'', env = \<lparr>localStorage = Map.empty, matchMedia = None,
                                        data_theme = None\<rparr>\<rparr>"]
    toggleTheme_involution
      [of "\<lparr>theme = ''light'', env = \<lparr>localStorage = Map.empty, matchMedia = None,
                                        data_theme = None\<rparr>\<rparr>"]
  by simp


section \<open>Properties of the registration form\<close>

text \<open>
  C9. On submit of the registration form, when the password and its confirmation differ
  the only effect is the validation message \<open>Passwords do not match\<close>; when they agree
  and the password has fewer than 6 characters the only effect is the message
  \<open>Password must be at least 6 characters\<close>. In both cases \<open>register\<close> is not called
  (the outcome does not depend on it at all). A call to \<open>register\<close> is made only when
  both checks pass, and then it is made with the form's email, username and password,
  the validation message being empty.
\<close>

theorem handleSubmit_guards_register:
  "(password fd \<noteq> confirmPassword fd \<longrightarrow>
      handleSubmit r fd p = p\<lparr>validationError := ''Passwords do not match''\<rparr>)
   \<and> (password fd = confirmPassword fd \<and> length (password fd) < 6 \<longrightarrow>
      handleSubmit r fd p = p\<lparr>validationError := ''Password must be at least 6 characters''\<rparr>)
   \<and> (password fd \<noteq> confirmPassword fd \<or> length (password fd) < 6 \<longrightarrow>
      register_calls (handleSubmit r fd p) = register_calls p
      \<and> validationError (handleSubmit r fd p) \<noteq> ''''
      \<and> handleSubmit r fd p = handleSubmit r' fd p)
   \<and> (register_calls (handleSubmit r fd p) \<noteq> register_calls p \<longrightarrow>
      password fd = confirmPassword fd \<and> 6 \<le> length (password fd))
   \<and> (password fd = confirmPassword fd \<and> 6 \<le> length (password fd) \<longrightarrow>
      register_calls (handleSubmit r fd p)
        = register_calls p @ [(email fd, username fd, password fd)]
      \<and> validationError (handleSubmit r fd p) = '''')"
  by (auto simp: handleSubmit_def Let_def split: sum.splits)

theorem handleSubmit_guards_register_witness:
  "register_calls (handleSubmit (\<lambda>e u p. Inr ())
      \<lparr>email = ''a@b.c'', username = ''ab'', password = ''secret'', confirmPassword = ''secre''\<rparr>
      \<lparr>validationError = '''', register_calls = [], navigations = []\<rparr>) = []
   \<and> validationError (handleSubmit (\<lambda>e u p. Inr ())
      \<lparr>email = ''a@b.c'', username = ''ab'', password = ''abc'', confirmPassword = ''abc''\<rparr>
      \<lparr>validationError = '''', register_calls = [], navigations = []\<rparr>)
      = ''Password must be at least 6 characters''
   \<and> register_calls (handleSubmit (\<lambda>e u p. Inr ())
      \<lparr>email = ''a@b.c'', username = ''ab'', password = ''secret'', confirmPassword = ''secret''\<rparr>
      \<lparr>validationError = '''', register_calls = [], navigations = []\<rparr>)
      = [(''a@b.c'', ''ab'', ''secret'')]"
proof -
  let ?r = "\<lambda>(e::string) (u::string) (p::string). (Inr () :: string + unit)"
  let ?p = "\<lparr>validationError = '''', register_calls = [], navigations = []\<rparr>"
  let ?mismatch = "\<lparr>email = ''a@b.c'', username = ''ab'', password = ''secret'',
                    confirmPassword = ''secre''\<rparr>"
  let ?short = "\<lparr>email = ''a@b.c'', username = ''ab'', password = ''abc'',
                 confirmPassword = ''abc''\<rparr>"
  let ?good = "\<lparr>email = ''a@b.c'', username = ''ab'', password = ''secret'',
                confirmPassword = ''secret''\<rparr>"
  have one: "register_calls (handleSubmit ?r ?mismatch ?p) = []"
    using handleSubmit_guards_register [of ?mismatch ?r ?p ?r, THEN conjunct1] by simp
  have two: "validationError (handleSubmit ?r ?short ?p) = ''Password must be at least 6 characters''"
    using handleSubmit_guards_register [of ?short ?r ?p ?r, THEN conjunct2, THEN conjunct1] by simp
  have three: "register_calls (handleSubmit ?r ?good ?p) = [(''a@b.c'', ''ab'', ''secret'')]"
    using handleSubmit_guards_register [of ?good ?r ?p ?r,
        THEN conjunct2, THEN conjunct2, THEN conjunct2, THEN conjunct2]
    by simp
  from one two three show ?thesis by blast
qed

section \<open>Properties of the auth service\<close>

lemma thrown_by_failing: "thrown_by (failing e) c = Some (mapped_message c e)"
  by (cases c; cases "err_status e")
     (simp_all add: thrown_def failing_def mapped_message_def network_message_def login_def
        register_def loginWithGoogle_def getMe_def refreshToken_def deleteAccount_def)

lemma thrown_by_table: "thrown_by api c = Some m \<Longrightarrow> m \<in> set (messages_of c)"
  by (cases c)
     (auto simp: thrown_def messages_of_def network_message_def login_def
        register_def loginWithGoogle_def getMe_def refreshToken_def deleteAccount_def
        split: sum.splits if_splits)

lemma messages_distinct: "distinct (messages_of c)"
  by (cases c) (simp_all add: messages_of_def network_message_def)

text \<open>
  C6 (as amended). Whatever the client does, an error thrown by one of the six
  operations carries one of the fixed messages of that operation: the messages for the
  response statuses the operation handles, the network-failure message, or the
  operation's fallback; these messages are pairwise distinct. When the request fails
  with error \<open>e\<close>, the message is the one the table gives: the message of the status if
  the operation handles it, else the network-failure message if \<open>e.code\<close> is
  \<open>NETWORK_ERROR\<close>, else the fallback; it does not depend on the message of \<open>e\<close>, which
  is never passed on. The statuses with a message of their own are 401 and 404 for
  \<open>login\<close> and \<open>deleteAccount\<close>, 401 for \<open>getMe\<close> and \<open>refreshToken\<close>, 400 and 409 for
  \<open>register\<close>, 400 for \<open>loginWithGoogle\<close>.
\<close>

theorem auth_failure_messages:
  "(\<forall>m. thrown_by api c = Some m \<longrightarrow> m \<in> set (messages_of c))
   \<and> thrown_by (failing e :: 'd api) c = Some (mapped_message c e)
   \<and> thrown_by (failing (e\<lparr>err_message := raw\<rparr>) :: 'd api) c = thrown_by (failing e :: 'd api) c
   \<and> distinct (messages_of c)
   \<and> map fst (status_messages (Login em pw)) = [401, 404]
   \<and> map fst (status_messages DeleteAccount) = [401, 404]
   \<and> map fst (status_messages GetMe) = [401]
   \<and> map fst (status_messages (RefreshToken tok)) = [401]
   \<and> map fst (status_messages (Register em un pw)) = [400, 409]
   \<and> map fst (status_messages (LoginWithGoogle g)) = [400]"
proof -
  have table: "\<forall>m. thrown_by api c = Some m \<longrightarrow> m \<in> set (messages_of c)"
    by (simp add: thrown_by_table)
  have raw: "thrown_by (failing (e\<lparr>err_message := raw\<rparr>) :: 'd api) c = thrown_by (failing e :: 'd api) c"
    by (simp add: thrown_by_failing mapped_message_def)
  from table raw show ?thesis
    by (simp add: thrown_by_failing messages_distinct)
qed

theorem auth_failure_messages_witness:
  "thrown_by (failing \<lparr>err_status = Some 401, err_code = None, err_message = ''Request failed''\<rparr> :: unit api)
      (Login ''a@b.c'' ''pw'')
     = Some ''Invalid email or password. Please check your credentials and try again.''
   \<and> ''Invalid email or password. Please check your credentials and try again.''
       \<in> set (messages_of (Login ''a@b.c'' ''pw''))"
proof -
  let ?e = "\<lparr>err_status = Some 401, err_code = None, err_message = ''Request failed''\<rparr>"
  note T = auth_failure_messages [of "failing ?e :: unit api" "Login ''a@b.c'' ''pw''" ?e]
  have a: "thrown_by (failing ?e :: unit api) (Login ''a@b.c'' ''pw'')
     = Some ''Invalid email or password. Please check your credentials and try again.''"
    using T [THEN conjunct2, THEN conjunct1] by (simp add: mapped_message_def)
  have b: "''Invalid email or password. Please check your credentials and try again.''
       \<in> set (messages_of (Login ''a@b.c'' ''pw''))"
    using T [THEN conjunct1, THEN spec, THEN mp, OF a] .
  from a b show ?thesis by blast
qed

text \<open>
  C6 as stated fails: not every operation tells a user that was not found, or invalid
  credentials, from the generic fallback. \<open>getMe\<close> answers a 404 exactly as it answers
  a 500, and \<open>register\<close> answers a 401 with its fallback.
\<close>

theorem getMe_user_not_found_counterexample:
  "getMe (failing \<lparr>err_status = Some 404, err_code = None,
                   err_message = ''Request failed with status code 404''\<rparr> :: unit api)
     = Inl ''Failed to get user information. Please try again.''
   \<and> getMe (failing \<lparr>err_status = Some 500, err_code = None,
                     err_message = ''Request failed with status code 500''\<rparr> :: unit api)
     = Inl ''Failed to get user information. Please try again.''
   \<and> register (failing \<lparr>err_status = Some 401, err_code = None,
                     err_message = ''Request failed with status code 401''\<rparr> :: unit api)
        ''a@b.c'' ''ab'' ''secret''
     = Inl ''Registration failed. Please try again later.''"
  by (simp add: getMe_def register_def failing_def)

section \<open>Properties of the scroll-follow effects\<close>

lemma scrollToBottom_attached:
  "scrollContainerRef w = Some el \<Longrightarrow>
   scrollContainerRef (fold scrollToBottom bs w) = Some el
   \<and> animation_frames (fold scrollToBottom bs w) = animation_frames w
   \<and> scrollTo_calls (fold scrollToBottom bs w)
       = scrollTo_calls w @ map (\<lambda>b. \<lparr>opt_top = scrollHeight el, opt_behavior = b\<rparr>) bs"
  by (induction bs arbitrary: w) (simp_all add: scrollToBottom_def)

lemma render_frames:
  "animation_frames (render upd d v)
     = animation_frames v
       @ (if isNearBottom (v\<lparr>scrollContainerRef := map_option upd (scrollContainerRef v)\<rparr>)
          then [case d of MessagesLength \<Rightarrow> Smooth | StreamingMessage \<Rightarrow> Auto] else [])"
  by (cases d)
     (simp_all add: render_def messages_length_effect_def streamingMessage_effect_def)

lemma render_container:
  "scrollContainerRef (render upd d v) = map_option upd (scrollContainerRef v)
   \<and> scrollTo_calls (render upd d v) = scrollTo_calls v"
  by (cases d)
     (simp_all add: render_def messages_length_effect_def streamingMessage_effect_def)

text \<open>
  C8 (as amended). For a change of the timeline length and for a change of the streaming
  draft alike, the view decides on the container as it is after the DOM update of that
  render: it schedules the scroll to the bottom exactly when the updated container is
  within 140 pixels of its bottom (always, when no container is attached, in which case
  the scheduled scroll does nothing). What it schedules is one animation frame, smooth
  for the timeline length and instant for the streaming draft; with a container attached,
  the next animation frame runs every pending scroll as a \<open>scrollTo\<close> whose top is the
  scroll height of the updated container, its bottom, so that a render near the bottom
  adds exactly one such call and a render away from the bottom adds none.
\<close>

theorem scroll_sampled_after_update:
  "auto_scrolls v (render upd d v)
     = isNearBottom (v\<lparr>scrollContainerRef := map_option upd (scrollContainerRef v)\<rparr>)
   \<and> (scrollContainerRef v = Some el \<longrightarrow>
        auto_scrolls v (render upd d v)
          = (scrollHeight (upd el) - scrollTop (upd el) - clientHeight (upd el) < 140))
   \<and> (scrollContainerRef v = None \<longrightarrow>
        auto_scrolls v (render upd d v) \<and> scrollTo_calls (animation_frame (render upd d v)) = scrollTo_calls v)
   \<and> (scrollContainerRef v = Some el \<longrightarrow>
        animation_frames (render upd d v)
          = animation_frames v
            @ (if scrollHeight (upd el) - scrollTop (upd el) - clientHeight (upd el) < 140
               then [case d of MessagesLength \<Rightarrow> Smooth | StreamingMessage \<Rightarrow> Auto] else [])
        \<and> scrollTo_calls (render upd d v) = scrollTo_calls v
        \<and> animation_frames (animation_frame (render upd d v)) = []
        \<and> scrollTo_calls (animation_frame (render upd d v))
          = scrollTo_calls v
            @ map (\<lambda>b. \<lparr>opt_top = scrollHeight (upd el), opt_behavior = b\<rparr>)
                (animation_frames v
                 @ (if scrollHeight (upd el) - scrollTop (upd el) - clientHeight (upd el) < 140
                    then [case d of MessagesLength \<Rightarrow> Smooth | StreamingMessage \<Rightarrow> Auto]
                    else [])))"
proof -
  let ?v = "v\<lparr>scrollContainerRef := map_option upd (scrollContainerRef v)\<rparr>"
  have decide: "auto_scrolls v (render upd d v) = isNearBottom ?v"
    by (cases d)
       (simp_all add: auto_scrolls_def render_def messages_length_effect_def
          streamingMessage_effect_def)
  have some: "scrollContainerRef v = Some el \<longrightarrow>
        auto_scrolls v (render upd d v)
          = (scrollHeight (upd el) - scrollTop (upd el) - clientHeight (upd el) < 140)"
    unfolding decide by (simp add: isNearBottom_def)
  have none_near: "scrollContainerRef v = None \<longrightarrow> auto_scrolls v (render upd d v)"
    unfolding decide by (simp add: isNearBottom_def)
  have no_call: "scrollContainerRef w = None \<Longrightarrow> scrollTo_calls (fold scrollToBottom bs w) = scrollTo_calls w"
    for w bs
    by (induction bs arbitrary: w) (simp_all add: scrollToBottom_def)
  have none_calls: "scrollContainerRef v = None \<longrightarrow>
        scrollTo_calls (animation_frame (render upd d v)) = scrollTo_calls v"
    by (cases d)
       (simp_all add: animation_frame_def render_def messages_length_effect_def
          streamingMessage_effect_def no_call)
  have attached: "animation_frames (render upd d v)
          = animation_frames v
            @ (if scrollHeight (upd el) - scrollTop (upd el) - clientHeight (upd el) < 140
               then [case d of MessagesLength \<Rightarrow> Smooth | StreamingMessage \<Rightarrow> Auto] else [])
        \<and> scrollTo_calls (render upd d v) = scrollTo_calls v
        \<and> animation_frames (animation_frame (render upd d v)) = []
        \<and> scrollTo_calls (animation_frame (render upd d v))
          = scrollTo_calls v
            @ map (\<lambda>b. \<lparr>opt_top = scrollHeight (upd el), opt_behavior = b\<rparr>)
                (animation_frames v
                 @ (if scrollHeight (upd el) - scrollTop (upd el) - clientHeight (upd el) < 140
                    then [case d of MessagesLength \<Rightarrow> Smooth | StreamingMessage \<Rightarrow> Auto]
                    else []))"
    if el: "scrollContainerRef v = Some el"
  proof -
    let ?r = "render upd d v"
    let ?w = "?r\<lparr>animation_frames := []\<rparr>"
    have near: "isNearBottom ?v
        = (scrollHeight (upd el) - scrollTop (upd el) - clientHeight (upd el) < 140)"
      using el by (simp add: isNearBottom_def)
    have frames: "animation_frames ?r
          = animation_frames v
            @ (if scrollHeight (upd el) - scrollTop (upd el) - clientHeight (upd el) < 140
               then [case d of MessagesLength \<Rightarrow> Smooth | StreamingMessage \<Rightarrow> Auto] else [])"
      unfolding render_frames near ..
    have calls: "scrollTo_calls ?r = scrollTo_calls v"
      by (simp add: render_container)
    have w: "scrollContainerRef ?w = Some (upd el)"
      using el by (simp add: render_container)
    note run = scrollToBottom_attached [OF w, of "animation_frames ?r"]
    have after_frames: "animation_frames (animation_frame ?r) = []"
      using run by (simp add: animation_frame_def)
    have after_calls: "scrollTo_calls (animation_frame ?r)
        = scrollTo_calls v
          @ map (\<lambda>b. \<lparr>opt_top = scrollHeight (upd el), opt_behavior = b\<rparr>) (animation_frames ?r)"
      using run calls by (simp add: animation_frame_def)
    from frames calls after_frames after_calls show ?thesis
      by simp
  qed
  from decide some none_near none_calls attached show ?thesis by blast
qed

theorem scroll_sampled_after_update_witness:
  "auto_scrolls
      \<lparr>scrollContainerRef = Some \<lparr>scrollHeight = 1000, scrollTop = 400, clientHeight = 500\<rparr>,
       animation_frames = [], scrollTo_calls = []\<rparr>
      (render (\<lambda>el. el\<lparr>scrollHeight := scrollHeight el + 30\<rparr>) StreamingMessage
        \<lparr>scrollContainerRef = Some \<lparr>scrollHeight = 1000, scrollTop = 400, clientHeight = 500\<rparr>,
         animation_frames = [], scrollTo_calls = []\<rparr>)
   \<and> auto_scrolls
      \<lparr>scrollContainerRef = None, animation_frames = [], scrollTo_calls = []\<rparr>
      (render (\<lambda>el. el) MessagesLength
        \<lparr>scrollContainerRef = None, animation_frames = [], scrollTo_calls = []\<rparr>)
   \<and> scrollTo_calls (animation_frame
      (render (\<lambda>el. el\<lparr>scrollHeight := scrollHeight el + 30\<rparr>) StreamingMessage
        \<lparr>scrollContainerRef = Some \<lparr>scrollHeight = 1000, scrollTop = 400, clientHeight = 500\<rparr>,
         animation_frames = [], scrollTo_calls = []\<rparr>))
     = [\<lparr>opt_top = 1030, opt_behavior = Auto\<rparr>]
   \<and> scrollTo_calls (animation_frame
      (render (\<lambda>el. el\<lparr>scrollHeight := scrollHeight el + 300\<rparr>) MessagesLength
        \<lparr>scrollContainerRef = Some \<lparr>scrollHeight = 1000, scrollTop = 400, clientHeight = 500\<rparr>,
         animation_frames = [], scrollTo_calls = []\<rparr>))
     = []"
proof -
  let ?el = "\<lparr>scrollHeight = 1000, scrollTop = 400, clientHeight = 500\<rparr>"
  let ?v = "\<lparr>scrollContainerRef = Some ?el, animation_frames = [], scrollTo_calls = []\<rparr>"
  let ?n = "\<lparr>scrollContainerRef = None, animation_frames = [], scrollTo_calls = []\<rparr>"
  let ?small = "\<lambda>el. el\<lparr>scrollHeight := scrollHeight el + 30\<rparr>"
  let ?large = "\<lambda>el. el\<lparr>scrollHeight := scrollHeight el + 300\<rparr>"
  have att: "scrollContainerRef ?v = Some ?el" by simp
  have one: "auto_scrolls ?v (render ?small StreamingMessage ?v)"
    using scroll_sampled_after_update
      [of ?v ?small StreamingMessage ?el, THEN conjunct2, THEN conjunct1]
    by simp
  have two: "auto_scrolls ?n (render (\<lambda>el. el) MessagesLength ?n)"
    using scroll_sampled_after_update
      [of ?n "\<lambda>el. el" MessagesLength ?el, THEN conjunct2, THEN conjunct2, THEN conjunct1]
    by simp
  have three: "scrollTo_calls (animation_frame (render ?small StreamingMessage ?v))
     = [\<lparr>opt_top = 1030, opt_behavior = Auto\<rparr>]"
    using scroll_sampled_after_update
      [of ?v ?small StreamingMessage ?el, THEN conjunct2, THEN conjunct2, THEN conjunct2,
       THEN mp, OF att, THEN conjunct2, THEN conjunct2, THEN conjunct2]
    by simp
  have four: "scrollTo_calls (animation_frame (render ?large MessagesLength ?v)) = []"
    using scroll_sampled_after_update
      [of ?v ?large MessagesLength ?el, THEN conjunct2, THEN conjunct2, THEN conjunct2,
       THEN mp, OF att, THEN conjunct2, THEN conjunct2, THEN conjunct2]
    by simp
  from one two three four show ?thesis by blast
qed

text \<open>
  C8 as stated fails: the position before the update does not decide. A view at the very
  bottom does not follow a message 200 pixels high: no scroll is scheduled and the next
  animation frame makes no \<open>scrollTo\<close> call. A view far from the bottom scrolls when the
  new content is short enough: the next animation frame scrolls it to the bottom.
\<close>

theorem scroll_sampled_before_update_counterexample:
  "isNearBottom
      \<lparr>scrollContainerRef = Some \<lparr>scrollHeight = 1000, scrollTop = 500, clientHeight = 500\<rparr>,
       animation_frames = [], scrollTo_calls = []\<rparr>
   \<and> \<not> auto_scrolls
      \<lparr>scrollContainerRef = Some \<lparr>scrollHeight = 1000, scrollTop = 500, clientHeight = 500\<rparr>,
       animation_frames = [], scrollTo_calls = []\<rparr>
      (render (\<lambda>el. el\<lparr>scrollHeight := scrollHeight el + 200\<rparr>) MessagesLength
        \<lparr>scrollContainerRef = Some \<lparr>scrollHeight = 1000, scrollTop = 500, clientHeight = 500\<rparr>,
         animation_frames = [], scrollTo_calls = []\<rparr>)
   \<and> scrollTo_calls (animation_frame
      (render (\<lambda>el. el\<lparr>scrollHeight := scrollHeight el + 200\<rparr>) MessagesLength
        \<lparr>scrollContainerRef = Some \<lparr>scrollHeight = 1000, scrollTop = 500, clientHeight = 500\<rparr>,
         animation_frames = [], scrollTo_calls = []\<rparr>)) = []
   \<and> \<not> isNearBottom
      \<lparr>scrollContainerRef = Some \<lparr>scrollHeight = 2000, scrollTop = 0, clientHeight = 500\<rparr>,
       animation_frames = [], scrollTo_calls = []\<rparr>
   \<and> auto_scrolls
      \<lparr>scrollContainerRef = Some \<lparr>scrollHeight = 2000, scrollTop = 0, clientHeight = 500\<rparr>,
       animation_frames = [], scrollTo_calls = []\<rparr>
      (render (\<lambda>el. el\<lparr>scrollHeight := 600\<rparr>) MessagesLength
        \<lparr>scrollContainerRef = Some \<lparr>scrollHeight = 2000, scrollTop = 0, clientHeight = 500\<rparr>,
         animation_frames = [], scrollTo_calls = []\<rparr>)
   \<and> scrollTo_calls (animation_frame
      (render (\<lambda>el. el\<lparr>scrollHeight := 600\<rparr>) MessagesLength
        \<lparr>scrollContainerRef = Some \<lparr>scrollHeight = 2000, scrollTop = 0, clientHeight = 500\<rparr>,
         animation_frames = [], scrollTo_calls = []\<rparr>))
     = [\<lparr>opt_top = 600, opt_behavior = Smooth\<rparr>]"
  by (simp add: isNearBottom_def auto_scrolls_def render_def messages_length_effect_def
      animation_frame_def scrollToBottom_def)


section \<open>Properties of the Message Timeline\<close>

lemma turn_le_max_turn: "x \<in> set msgs \<Longrightarrow> turn_number x \<le> max_turn msgs"
  unfolding max_turn_def by (induction msgs) auto

lemma max_turn_snoc: "max_turn (msgs @ [m]) = max (max_turn msgs) (turn_number m)"
  unfolding max_turn_def by (induction msgs) auto

lemma insert_ordered_last:
  "max_turn msgs < turn_number m \<Longrightarrow> insert_ordered m msgs = msgs @ [m]"
proof -
  assume gt: "max_turn msgs < turn_number m"
  have all: "\<forall>x\<in>set msgs. turn_number x \<le> turn_number m"
    using gt turn_le_max_turn by fastforce
  then show ?thesis
    by (simp add: insert_ordered_def)
qed

lemma strictly_increasing_snoc:
  "strictly_increasing msgs \<Longrightarrow> max_turn msgs < turn_number m
   \<Longrightarrow> strictly_increasing (msgs @ [m])"
proof -
  assume inc: "strictly_increasing msgs" and gt: "max_turn msgs < turn_number m"
  have "\<forall>x\<in>set msgs. turn_number x < turn_number m"
    using gt turn_le_max_turn by fastforce
  with inc show ?thesis
    by (simp add: strictly_increasing_def sorted_wrt_append)
qed

lemma append_message_accepts:
  "max_turn (tls (conversation_id m)) < turn_number m
   \<Longrightarrow> append_message m tls
       = (None, tls(conversation_id m := tls (conversation_id m) @ [m]))"
  by (simp add: append_message_def Let_def insert_ordered_last)

lemma append_message_rejects:
  "\<not> max_turn (tls (conversation_id m)) < turn_number m
   \<Longrightarrow> append_message m tls = (Some OrderingError, tls)"
  by (simp add: append_message_def Let_def)

lemma append_message_increasing:
  "\<forall>c. strictly_increasing (tls c) \<Longrightarrow> strictly_increasing (snd (append_message m tls) c)"
  by (cases "max_turn (tls (conversation_id m)) < turn_number m")
     (simp_all add: append_message_accepts append_message_rejects strictly_increasing_snoc)

lemma appends_increasing:
  "\<forall>c. strictly_increasing (tls c) \<Longrightarrow> strictly_increasing (appends ms tls c)"
  unfolding appends_def
proof (induction ms arbitrary: tls)
  case Nil
  then show ?case by simp
next
  case (Cons m ms)
  have "\<forall>c. strictly_increasing (snd (append_message m tls) c)"
    using Cons.prems by (simp add: append_message_increasing)
  then show ?case
    using Cons.IH by simp
qed

text \<open>
  C1. Whatever the sequence of \<open>append\<close> calls, the timelines stay strictly increasing in
  turn number in display order: from timelines that are so, and in particular from the
  empty ones. An \<open>append\<close> of a message whose turn number is not strictly greater than the
  current maximum of its conversation fails with \<open>OrderingError\<close> and returns the
  timelines exactly as they were; any other \<open>append\<close> succeeds and puts the message at
  the end of the timeline of its conversation.
\<close>

theorem append_keeps_turn_order:
  "((\<forall>c. strictly_increasing (tls c)) \<longrightarrow> (\<forall>c. strictly_increasing (appends ms tls c)))
   \<and> (\<forall>c. strictly_increasing (appends ms (\<lambda>c. []) c))
   \<and> (turn_number m \<le> max_turn (tls (conversation_id m))
        \<longrightarrow> append_message m tls = (Some OrderingError, tls))
   \<and> (max_turn (tls (conversation_id m)) < turn_number m
        \<longrightarrow> append_message m tls
            = (None, tls(conversation_id m := tls (conversation_id m) @ [m])))"
proof -
  have seq: "(\<forall>c. strictly_increasing (tls c)) \<longrightarrow> (\<forall>c. strictly_increasing (appends ms tls c))"
    by (simp add: appends_increasing)
  have empty: "\<forall>c. strictly_increasing (appends ms (\<lambda>c. []) c)"
  proof -
    have "\<forall>c. strictly_increasing ((\<lambda>c. []) c)"
      by (simp add: strictly_increasing_def)
    then show ?thesis
      by (simp add: appends_increasing)
  qed
  have rej: "turn_number m \<le> max_turn (tls (conversation_id m))
        \<longrightarrow> append_message m tls = (Some OrderingError, tls)"
    by (simp add: append_message_rejects)
  have acc: "max_turn (tls (conversation_id m)) < turn_number m
        \<longrightarrow> append_message m tls
            = (None, tls(conversation_id m := tls (conversation_id m) @ [m]))"
    by (simp add: append_message_accepts)
  from seq empty rej acc show ?thesis by blast
qed

theorem append_keeps_turn_order_witness:
  "append_message \<lparr>msg_id = None, conversation_id = 7, role = User, content = ''hi'', turn_number = 1\<rparr>
      (\<lambda>c. [])
     = (None, (\<lambda>c. [])(7 := [\<lparr>msg_id = None, conversation_id = 7, role = User,
                               content = ''hi'', turn_number = 1\<rparr>]))
   \<and> append_message \<lparr>msg_id = None, conversation_id = 7, role = User, content = ''hi'', turn_number = 1\<rparr>
      ((\<lambda>c. [])(7 := [\<lparr>msg_id = None, conversation_id = 7, role = User,
                         content = ''hi'', turn_number = 1\<rparr>]))
     = (Some OrderingError, (\<lambda>c. [])(7 := [\<lparr>msg_id = None, conversation_id = 7, role = User,
                         content = ''hi'', turn_number = 1\<rparr>]))
   \<and> strictly_increasing (appends
        [\<lparr>msg_id = None, conversation_id = 7, role = User, content = ''hi'', turn_number = 1\<rparr>,
         \<lparr>msg_id = None, conversation_id = 7, role = User, content = ''hi'', turn_number = 1\<rparr>]
        (\<lambda>c. []) 7)"
proof -
  let ?m = "\<lparr>msg_id = None, conversation_id = 7, role = User, content = ''hi'', turn_number = 1\<rparr>"
  let ?empty = "(\<lambda>c. []) :: nat \<Rightarrow> message list"
  let ?one = "?empty(7 := [?m])"
  have m0: "max_turn (?empty (conversation_id ?m)) < turn_number ?m"
    by (simp add: max_turn_def)
  have m1: "turn_number ?m \<le> max_turn (?one (conversation_id ?m))"
    by (simp add: max_turn_def)
  have inc0: "\<forall>c. strictly_increasing (?empty c)"
    by (simp add: strictly_increasing_def)
  have a: "append_message ?m ?empty = (None, ?one)"
    using append_keeps_turn_order [of ?empty "[]" ?m,
        THEN conjunct2, THEN conjunct2, THEN conjunct2, THEN mp, OF m0]
    by simp
  have b: "append_message ?m ?one = (Some OrderingError, ?one)"
    using append_keeps_turn_order [of ?one "[]" ?m,
        THEN conjunct2, THEN conjunct2, THEN conjunct1, THEN mp, OF m1] .
  have c: "strictly_increasing (appends [?m, ?m] ?empty 7)"
    using append_keeps_turn_order [of ?empty "[?m, ?m]" ?m, THEN conjunct1, THEN mp, OF inc0]
    by simp
  from a b c show ?thesis by blast
qed


section \<open>Properties of the Streaming Session and the Chat Engine\<close>

lemma fail_fields [simp]:
  "fst (fail err e) = Some err"
  "conversations (snd (fail err e)) = conversations e"
  "current_conversation (snd (fail err e)) = current_conversation e"
  "timelines (snd (fail err e)) = timelines e"
  "draft (snd (fail err e)) = draft e"
  "is_busy (snd (fail err e)) = is_busy e"
  "last_error (snd (fail err e)) = Some err"
  "open_channels (snd (fail err e)) = open_channels e"
  "transport_log (snd (fail err e)) = transport_log e"
  by (simp_all add: fail_def)

lemma session_active_fail [simp]: "session_active (snd (fail err e)) = session_active e"
  by (simp add: session_active_def)

lemma timeline_fail [simp]: "timeline (snd (fail err e)) = timeline e"
  by (simp add: timeline_def split: option.splits)

lemma begin_session_starts:
  "\<not> session_active e \<Longrightarrow>
   begin_session cid um e =
     (None, e\<lparr>timelines := (timelines e)(cid := timelines e cid
                  @ [\<lparr>msg_id = None, conversation_id = cid, role = User, content = um,
                      turn_number = max_turn (timelines e cid) + 1\<rparr>]),
               draft := Some \<lparr>draft_conversation_id = cid, accumulated_text = '''',
                              status = Active\<rparr>,
               open_channels := open_channels e + 1,
               transport_log := transport_log e @ [OpenStream cid um]\<rparr>)"
  by (simp add: begin_session_def Let_def append_message_accepts)

lemma end_of_stream_promotes:
  "draft e = Some d \<Longrightarrow> status d = Active \<Longrightarrow>
   on_end_of_stream e =
     close_channel (draft_conversation_id d)
       (e\<lparr>timelines := (timelines e)(draft_conversation_id d :=
            timelines e (draft_conversation_id d)
            @ [\<lparr>msg_id = None, conversation_id = draft_conversation_id d, role = Assistant,
                content = accumulated_text d,
                turn_number = max_turn (timelines e (draft_conversation_id d)) + 1\<rparr>])\<rparr>)"
  by (simp add: on_end_of_stream_def Let_def append_message_accepts)

lemma sendMessage_active:
  "session_active e \<Longrightarrow> sendMessage ct e = fail InvalidStateError e"
  by (auto simp: sendMessage_def session_active_def session_idle_def split: option.splits)

lemma step_accumulates:
  "draft e = Some d \<Longrightarrow> status d = Active \<Longrightarrow> \<not> terminal ev \<Longrightarrow>
   draft (step ev e) = Some (d\<lparr>accumulated_text := accumulated_text d @ concat (chunks_of [ev])\<rparr>)"
proof (cases ev)
  case (SendMessage ct)
  assume d: "draft e = Some d" "status d = Active"
  then have "session_active e" by (simp add: session_active_def)
  then show ?thesis using d by (simp add: SendMessage sendMessage_active)
qed (simp_all add: loadConversations_def loadConversations_started_def
      loadConversations_finished_def selectConversation_def Let_def fail_def on_chunk_def
      split: sum.splits)

lemma run_accumulates:
  "draft e = Some d \<Longrightarrow> status d = Active \<Longrightarrow> \<forall>ev\<in>set evs. \<not> terminal ev \<Longrightarrow>
   draft (run evs e) = Some (d\<lparr>accumulated_text := accumulated_text d @ concat (chunks_of evs)\<rparr>)"
proof (induction evs arbitrary: e d)
  case Nil
  then show ?case by (simp add: run_def)
next
  case (Cons ev evs)
  let ?d = "d\<lparr>accumulated_text := accumulated_text d @ concat (chunks_of [ev])\<rparr>"
  have step: "draft (step ev e) = Some ?d"
    using Cons.prems by (simp add: step_accumulates)
  have "draft (run evs (step ev e))
      = Some (?d\<lparr>accumulated_text := accumulated_text ?d @ concat (chunks_of evs)\<rparr>)"
    using Cons.prems by (intro Cons.IH [OF step]) simp_all
  moreover have "concat (chunks_of [ev]) @ concat (chunks_of evs) = concat (chunks_of (ev # evs))"
    by (cases ev) simp_all
  ultimately show ?case
    by (simp add: run_def)
qed

lemma sendMessage_begins:
  "current_conversation e = Some c \<Longrightarrow> session_idle e \<Longrightarrow> trim ct \<noteq> '''' \<Longrightarrow>
   sendMessage ct e = begin_session (conv_id c) ct e"
  by (simp add: sendMessage_def)

lemma idle_not_active: "session_idle e \<Longrightarrow> \<not> session_active e"
  by (simp add: session_idle_def session_active_def)

lemma sendMessage_success:
  "fst (sendMessage ct e) = None \<Longrightarrow>
   \<exists>c. current_conversation e = Some c \<and> session_idle e \<and> trim ct \<noteq> ''''"
  by (auto simp: sendMessage_def split: option.splits if_splits)

lemma sendMessage_opens:
  "current_conversation e = Some c \<Longrightarrow> fst (sendMessage ct e) = None \<Longrightarrow>
   draft (snd (sendMessage ct e))
     = Some \<lparr>draft_conversation_id = conv_id c, accumulated_text = '''', status = Active\<rparr>"
proof -
  assume cur: "current_conversation e = Some c" and ok: "fst (sendMessage ct e) = None"
  from sendMessage_success [OF ok] cur have idle: "session_idle e" and ne: "trim ct \<noteq> ''''"
    by auto
  show ?thesis
    by (simp add: sendMessage_begins [OF cur idle ne] begin_session_starts [OF idle_not_active [OF idle]])
qed

lemma sendMessage_invalid_state:
  "current_conversation e = None \<or> \<not> session_idle e \<Longrightarrow>
   sendMessage ct e = fail InvalidStateError e"
  by (auto simp: sendMessage_def split: option.splits)

lemma sendMessage_blank:
  "trim ct = '''' \<Longrightarrow>
   sendMessage ct e = fail InvalidStateError e \<or> sendMessage ct e = fail ValidationError e"
  by (simp add: sendMessage_def split: option.splits)

lemma timeline_frame:
  "current_conversation e' = current_conversation e \<Longrightarrow> timelines e' = timelines e
   \<Longrightarrow> timeline e' = timeline e"
  by (simp add: timeline_def split: option.splits)

text \<open>
  C3. When the channel signals end-of-stream for an active session, exactly one message
  is appended to the timeline of the draft's conversation, and no other timeline changes:
  an assistant message whose turn number is the previous maximum plus one and whose
  content is the accumulated text; the draft is cleared and the session is idle. After a
  successful \<open>sendMessage\<close> and any events that do not end the session, the promoted
  content is the concatenation, in arrival order, of all chunks received.
\<close>

theorem completion_promotes_draft:
  "(draft e = Some d \<and> status d = Active \<longrightarrow>
      timelines (on_end_of_stream e) (draft_conversation_id d)
        = timelines e (draft_conversation_id d)
          @ [\<lparr>msg_id = None, conversation_id = draft_conversation_id d, role = Assistant,
              content = accumulated_text d,
              turn_number = max_turn (timelines e (draft_conversation_id d)) + 1\<rparr>]
      \<and> (\<forall>k. k \<noteq> draft_conversation_id d \<longrightarrow>
            timelines (on_end_of_stream e) k = timelines e k)
      \<and> draft (on_end_of_stream e) = None
      \<and> session_idle (on_end_of_stream e))
   \<and> (current_conversation s = Some c \<and> fst (sendMessage ct s) = None
       \<and> (\<forall>ev\<in>set evs. \<not> terminal ev) \<longrightarrow>
      timelines (on_end_of_stream (run evs (snd (sendMessage ct s)))) (conv_id c)
        = timelines (run evs (snd (sendMessage ct s))) (conv_id c)
          @ [\<lparr>msg_id = None, conversation_id = conv_id c, role = Assistant,
              content = concat (chunks_of evs),
              turn_number = max_turn (timelines (run evs (snd (sendMessage ct s))) (conv_id c)) + 1\<rparr>]
      \<and> draft (on_end_of_stream (run evs (snd (sendMessage ct s)))) = None)"
proof -
  have single: "timelines (on_end_of_stream e) (draft_conversation_id d)
        = timelines e (draft_conversation_id d)
          @ [\<lparr>msg_id = None, conversation_id = draft_conversation_id d, role = Assistant,
              content = accumulated_text d,
              turn_number = max_turn (timelines e (draft_conversation_id d)) + 1\<rparr>]
      \<and> (\<forall>k. k \<noteq> draft_conversation_id d \<longrightarrow>
            timelines (on_end_of_stream e) k = timelines e k)
      \<and> draft (on_end_of_stream e) = None
      \<and> session_idle (on_end_of_stream e)"
    if "draft e = Some d" "status d = Active" for e d
    using that by (simp add: end_of_stream_promotes close_channel_def session_idle_def)
  have whole: "timelines (on_end_of_stream (run evs (snd (sendMessage ct s)))) (conv_id c)
        = timelines (run evs (snd (sendMessage ct s))) (conv_id c)
          @ [\<lparr>msg_id = None, conversation_id = conv_id c, role = Assistant,
              content = concat (chunks_of evs),
              turn_number = max_turn (timelines (run evs (snd (sendMessage ct s))) (conv_id c)) + 1\<rparr>]
      \<and> draft (on_end_of_stream (run evs (snd (sendMessage ct s)))) = None"
    if cur: "current_conversation s = Some c" and ok: "fst (sendMessage ct s) = None"
      and nt: "\<forall>ev\<in>set evs. \<not> terminal ev"
  proof -
    let ?d0 = "\<lparr>draft_conversation_id = conv_id c, accumulated_text = '''', status = Active\<rparr>"
    let ?d = "?d0\<lparr>accumulated_text := accumulated_text ?d0 @ concat (chunks_of evs)\<rparr>"
    have "draft (run evs (snd (sendMessage ct s))) = Some ?d"
      by (rule run_accumulates [OF sendMessage_opens [OF cur ok] _ nt]) simp
    from single [OF this] show ?thesis by simp
  qed
  from single whole show ?thesis by blast
qed

theorem completion_promotes_draft_witness:
  "timelines (on_end_of_stream
      \<lparr>conversations = [], current_conversation = None, timelines = (\<lambda>c. []),
       draft = Some \<lparr>draft_conversation_id = 3, accumulated_text = ''Hi there'', status = Active\<rparr>,
       is_busy = False, last_error = None, open_channels = 1, transport_log = []\<rparr>) 3
     = [\<lparr>msg_id = None, conversation_id = 3, role = Assistant, content = ''Hi there'',
         turn_number = 1\<rparr>]
   \<and> draft (on_end_of_stream (run [Chunk ''Hi'', Chunk '' there'']
        (snd (sendMessage ''hello''
          \<lparr>conversations = [\<lparr>conv_id = 3, title = ''A'', turn_count = 0, updated_at = 0\<rparr>],
           current_conversation = Some \<lparr>conv_id = 3, title = ''A'', turn_count = 0, updated_at = 0\<rparr>,
           timelines = (\<lambda>c. []), draft = None, is_busy = False, last_error = None,
           open_channels = 0, transport_log = []\<rparr>)))) = None"
proof -
  let ?d = "\<lparr>draft_conversation_id = 3, accumulated_text = ''Hi there'', status = Active\<rparr>"
  let ?e = "\<lparr>conversations = [], current_conversation = None, timelines = (\<lambda>c. []),
       draft = Some ?d,
       is_busy = False, last_error = None, open_channels = 1, transport_log = []\<rparr>"
  let ?c = "\<lparr>conv_id = 3, title = ''A'', turn_count = 0, updated_at = 0\<rparr>"
  let ?s = "\<lparr>conversations = [?c], current_conversation = Some ?c,
           timelines = (\<lambda>c. []), draft = None, is_busy = False, last_error = None,
           open_channels = 0, transport_log = []\<rparr>"
  let ?evs = "[Chunk ''Hi'', Chunk '' there'']"
  note T = completion_promotes_draft [of ?e ?d ?s ?c "''hello''" ?evs]
  have h1: "draft ?e = Some ?d \<and> status ?d = Active" by simp
  have one: "timelines (on_end_of_stream ?e) 3
     = [\<lparr>msg_id = None, conversation_id = 3, role = Assistant, content = ''Hi there'',
         turn_number = 1\<rparr>]"
    using T [THEN conjunct1, THEN mp, OF h1] by (simp add: max_turn_def)
  have tr: "trim ''hello'' \<noteq> ''''"
    by (simp add: trim_def is_space_def)
  have ok: "fst (sendMessage ''hello'' ?s) = None"
    by (simp add: sendMessage_def session_idle_def tr begin_session_def session_active_def
        Let_def append_message_def max_turn_def)
  have h2: "current_conversation ?s = Some ?c \<and> fst (sendMessage ''hello'' ?s) = None
       \<and> (\<forall>ev\<in>set ?evs. \<not> terminal ev)"
    using ok by simp
  have two: "draft (on_end_of_stream (run ?evs (snd (sendMessage ''hello'' ?s)))) = None"
    using T [THEN conjunct2, THEN mp, OF h2] by simp
  from one two show ?thesis by blast
qed

text \<open>
  C4. \<open>sendMessage\<close> fails with \<open>InvalidStateError\<close> when there is no current
  conversation or the Streaming Session is not idle. With a current conversation and an
  idle session, content that is empty after trimming (such as the empty string or three
  spaces) fails with \<open>ValidationError\<close>. Whenever the content is empty after trimming the
  call fails, no request is sent, no channel is opened, and the timelines, hence the
  length of the displayed timeline, are unchanged. Otherwise \<open>sendMessage\<close> begins a
  Streaming Session: it is \<open>begin\<close> for the current conversation, it succeeds, the
  session is active and the stream has been opened.
\<close>

theorem sendMessage_preconditions:
  "(current_conversation e = None \<or> \<not> session_idle e \<longrightarrow>
      fst (sendMessage ct e) = Some InvalidStateError)
   \<and> (current_conversation e = Some c \<and> session_idle e \<and> trim ct = '''' \<longrightarrow>
      fst (sendMessage ct e) = Some ValidationError)
   \<and> (trim ct = '''' \<longrightarrow>
      fst (sendMessage ct e) \<noteq> None
      \<and> transport_log (snd (sendMessage ct e)) = transport_log e
      \<and> open_channels (snd (sendMessage ct e)) = open_channels e
      \<and> timelines (snd (sendMessage ct e)) = timelines e
      \<and> length (timeline (snd (sendMessage ct e))) = length (timeline e))
   \<and> (current_conversation e = Some c \<and> session_idle e \<and> trim ct \<noteq> '''' \<longrightarrow>
      sendMessage ct e = begin_session (conv_id c) ct e
      \<and> fst (sendMessage ct e) = None
      \<and> session_active (snd (sendMessage ct e))
      \<and> transport_log (snd (sendMessage ct e)) = transport_log e @ [OpenStream (conv_id c) ct])
   \<and> trim '''' = '''' \<and> trim ''   '' = ''''"
proof -
  have state: "current_conversation e = None \<or> \<not> session_idle e \<longrightarrow>
      fst (sendMessage ct e) = Some InvalidStateError"
    by (auto simp: sendMessage_invalid_state)
  have valid: "current_conversation e = Some c \<and> session_idle e \<and> trim ct = '''' \<longrightarrow>
      fst (sendMessage ct e) = Some ValidationError"
    by (simp add: sendMessage_def)
  have blank: "trim ct = '''' \<longrightarrow>
      fst (sendMessage ct e) \<noteq> None
      \<and> transport_log (snd (sendMessage ct e)) = transport_log e
      \<and> open_channels (snd (sendMessage ct e)) = open_channels e
      \<and> timelines (snd (sendMessage ct e)) = timelines e
      \<and> length (timeline (snd (sendMessage ct e))) = length (timeline e)"
    using sendMessage_blank [of ct e] by auto
  have begins: "current_conversation e = Some c \<and> session_idle e \<and> trim ct \<noteq> '''' \<longrightarrow>
      sendMessage ct e = begin_session (conv_id c) ct e
      \<and> fst (sendMessage ct e) = None
      \<and> session_active (snd (sendMessage ct e))
      \<and> transport_log (snd (sendMessage ct e)) = transport_log e @ [OpenStream (conv_id c) ct]"
  proof (intro impI, elim conjE)
    assume cur: "current_conversation e = Some c" and idle: "session_idle e"
      and ne: "trim ct \<noteq> ''''"
    have eq: "sendMessage ct e = begin_session (conv_id c) ct e"
      by (rule sendMessage_begins [OF cur idle ne])
    show "sendMessage ct e = begin_session (conv_id c) ct e
      \<and> fst (sendMessage ct e) = None
      \<and> session_active (snd (sendMessage ct e))
      \<and> transport_log (snd (sendMessage ct e)) = transport_log e @ [OpenStream (conv_id c) ct]"
      unfolding eq
      by (simp add: begin_session_starts [OF idle_not_active [OF idle]] session_active_def)
  qed
  have trims: "trim '''' = '''' \<and> trim ''   '' = ''''"
    by (simp add: trim_def is_space_def)
  from state valid blank begins trims show ?thesis by blast
qed

theorem sendMessage_preconditions_witness:
  "fst (sendMessage ''hello'' initial_engine) = Some InvalidStateError
   \<and> fst (sendMessage ''   ''
      \<lparr>conversations = [\<lparr>conv_id = 3, title = ''A'', turn_count = 0, updated_at = 0\<rparr>],
       current_conversation = Some \<lparr>conv_id = 3, title = ''A'', turn_count = 0, updated_at = 0\<rparr>,
       timelines = (\<lambda>c. []), draft = None, is_busy = False, last_error = None,
       open_channels = 0, transport_log = []\<rparr>) = Some ValidationError
   \<and> transport_log (snd (sendMessage ''hello''
      \<lparr>conversations = [\<lparr>conv_id = 3, title = ''A'', turn_count = 0, updated_at = 0\<rparr>],
       current_conversation = Some \<lparr>conv_id = 3, title = ''A'', turn_count = 0, updated_at = 0\<rparr>,
       timelines = (\<lambda>c. []), draft = None, is_busy = False, last_error = None,
       open_channels = 0, transport_log = []\<rparr>)) = [OpenStream 3 ''hello'']"
proof -
  let ?c = "\<lparr>conv_id = 3, title = ''A'', turn_count = 0, updated_at = 0\<rparr>"
  let ?s = "\<lparr>conversations = [?c], current_conversation = Some ?c,
       timelines = (\<lambda>c. []), draft = None, is_busy = False, last_error = None,
       open_channels = 0, transport_log = []\<rparr>"
  have h1: "current_conversation initial_engine = None \<or> \<not> session_idle initial_engine"
    by (simp add: initial_engine_def)
  have one: "fst (sendMessage ''hello'' initial_engine) = Some InvalidStateError"
    using sendMessage_preconditions [of initial_engine "''hello''" ?c, THEN conjunct1, THEN mp, OF h1] .
  have blank: "trim ''   '' = ''''"
    by (simp add: trim_def is_space_def)
  have h2: "current_conversation ?s = Some ?c \<and> session_idle ?s \<and> trim ''   '' = ''''"
    using blank by (simp add: session_idle_def)
  have two: "fst (sendMessage ''   '' ?s) = Some ValidationError"
    using sendMessage_preconditions [of ?s "''   ''" ?c, THEN conjunct2, THEN conjunct1, THEN mp, OF h2] .
  have tr: "trim ''hello'' \<noteq> ''''"
    by (simp add: trim_def is_space_def)
  have h3: "current_conversation ?s = Some ?c \<and> session_idle ?s \<and> trim ''hello'' \<noteq> ''''"
    using tr by (simp add: session_idle_def)
  have three: "transport_log (snd (sendMessage ''hello'' ?s)) = [OpenStream 3 ''hello'']"
    using sendMessage_preconditions [of ?s "''hello''" ?c,
        THEN conjunct2, THEN conjunct2, THEN conjunct2, THEN conjunct1, THEN mp, OF h3,
        THEN conjunct2, THEN conjunct2, THEN conjunct2]
    by simp
  from one two three show ?thesis by blast
qed

text \<open>
  C5. A transport failure of a read leaves every part of \<open>EngineState\<close> other than
  \<open>is_busy\<close> and \<open>last_error\<close> as it was. During \<open>loadConversations\<close> and after its
  failure, \<open>conversations\<close>, \<open>current_conversation\<close>, the timelines and the displayed
  \<open>timeline\<close>, and \<open>draft\<close> are unchanged; the failure sets \<open>last_error\<close> and resets
  \<open>is_busy\<close>. A failing load of a timeline on \<open>selectConversation\<close> returns the error,
  records it in \<open>last_error\<close>, and leaves all the rest, \<open>is_busy\<close> included, unchanged.
\<close>

theorem read_failure_keeps_state:
  "conversations (loadConversations_started e) = conversations e
   \<and> current_conversation (loadConversations_started e) = current_conversation e
   \<and> timelines (loadConversations_started e) = timelines e
   \<and> timeline (loadConversations_started e) = timeline e
   \<and> draft (loadConversations_started e) = draft e
   \<and> is_busy (loadConversations_started e)
   \<and> conversations (loadConversations (Inl err) e) = conversations e
   \<and> current_conversation (loadConversations (Inl err) e) = current_conversation e
   \<and> timelines (loadConversations (Inl err) e) = timelines e
   \<and> timeline (loadConversations (Inl err) e) = timeline e
   \<and> draft (loadConversations (Inl err) e) = draft e
   \<and> last_error (loadConversations (Inl err) e) = Some err
   \<and> \<not> is_busy (loadConversations (Inl err) e)
   \<and> fst (selectConversation c (Inl err) e)
       = Some (if conv_id c \<in> set (map conv_id (conversations e)) then err else NotFoundError)
   \<and> conversations (snd (selectConversation c (Inl err) e)) = conversations e
   \<and> current_conversation (snd (selectConversation c (Inl err) e)) = current_conversation e
   \<and> timelines (snd (selectConversation c (Inl err) e)) = timelines e
   \<and> timeline (snd (selectConversation c (Inl err) e)) = timeline e
   \<and> draft (snd (selectConversation c (Inl err) e)) = draft e
   \<and> is_busy (snd (selectConversation c (Inl err) e)) = is_busy e
   \<and> last_error (snd (selectConversation c (Inl err) e)) = fst (selectConversation c (Inl err) e)"
proof -
  have t1: "timeline (loadConversations_started e) = timeline e"
    by (rule timeline_frame) (simp_all add: loadConversations_started_def)
  have t2: "timeline (loadConversations (Inl err) e) = timeline e"
    by (rule timeline_frame)
       (simp_all add: loadConversations_def loadConversations_started_def
          loadConversations_finished_def)
  have t3: "timeline (snd (selectConversation c (Inl err) e)) = timeline e"
    by (rule timeline_frame) (simp_all add: selectConversation_def Let_def fail_def)
  have started: "conversations (loadConversations_started e) = conversations e
   \<and> current_conversation (loadConversations_started e) = current_conversation e
   \<and> timelines (loadConversations_started e) = timelines e
   \<and> draft (loadConversations_started e) = draft e
   \<and> is_busy (loadConversations_started e)"
    by (simp add: loadConversations_started_def)
  have failed: "conversations (loadConversations (Inl err) e) = conversations e
   \<and> current_conversation (loadConversations (Inl err) e) = current_conversation e
   \<and> timelines (loadConversations (Inl err) e) = timelines e
   \<and> draft (loadConversations (Inl err) e) = draft e
   \<and> last_error (loadConversations (Inl err) e) = Some err
   \<and> \<not> is_busy (loadConversations (Inl err) e)"
    by (simp add: loadConversations_def loadConversations_started_def
        loadConversations_finished_def)
  have select: "fst (selectConversation c (Inl err) e)
       = Some (if conv_id c \<in> set (map conv_id (conversations e)) then err else NotFoundError)
   \<and> conversations (snd (selectConversation c (Inl err) e)) = conversations e
   \<and> current_conversation (snd (selectConversation c (Inl err) e)) = current_conversation e
   \<and> timelines (snd (selectConversation c (Inl err) e)) = timelines e
   \<and> draft (snd (selectConversation c (Inl err) e)) = draft e
   \<and> is_busy (snd (selectConversation c (Inl err) e)) = is_busy e
   \<and> last_error (snd (selectConversation c (Inl err) e)) = fst (selectConversation c (Inl err) e)"
    by (simp add: selectConversation_def Let_def fail_def)
  from t1 t2 t3 started failed select show ?thesis
    by simp
qed

theorem read_failure_keeps_state_witness:
  "timeline (loadConversations (Inl (TransportError ''offline''))
      \<lparr>conversations = [\<lparr>conv_id = 3, title = ''A'', turn_count = 1, updated_at = 0\<rparr>],
       current_conversation = Some \<lparr>conv_id = 3, title = ''A'', turn_count = 1, updated_at = 0\<rparr>,
       timelines = (\<lambda>c. [\<lparr>msg_id = Some 1, conversation_id = c, role = User,
                              content = ''hello'', turn_number = 1\<rparr>]),
       draft = None, is_busy = False, last_error = None,
       open_channels = 0, transport_log = []\<rparr>)
     = [\<lparr>msg_id = Some 1, conversation_id = 3, role = User, content = ''hello'', turn_number = 1\<rparr>]
   \<and> fst (selectConversation \<lparr>conv_id = 3, title = ''A'', turn_count = 1, updated_at = 0\<rparr>
        (Inl (TransportError ''offline''))
      \<lparr>conversations = [\<lparr>conv_id = 3, title = ''A'', turn_count = 1, updated_at = 0\<rparr>],
       current_conversation = Some \<lparr>conv_id = 3, title = ''A'', turn_count = 1, updated_at = 0\<rparr>,
       timelines = (\<lambda>c. [\<lparr>msg_id = Some 1, conversation_id = c, role = User,
                              content = ''hello'', turn_number = 1\<rparr>]),
       draft = None, is_busy = False, last_error = None,
       open_channels = 0, transport_log = []\<rparr>)
     = Some (TransportError ''offline'')"
proof -
  let ?c = "\<lparr>conv_id = 3, title = ''A'', turn_count = 1, updated_at = 0\<rparr>"
  let ?e = "\<lparr>conversations = [?c], current_conversation = Some ?c,
       timelines = (\<lambda>c. [\<lparr>msg_id = Some 1, conversation_id = c, role = User,
                              content = ''hello'', turn_number = 1\<rparr>]),
       draft = None, is_busy = False, last_error = None,
       open_channels = 0, transport_log = []\<rparr>"
  note T = read_failure_keeps_state [of ?e "TransportError ''offline''" ?c]
  have tl: "timeline ?e
     = [\<lparr>msg_id = Some 1, conversation_id = 3, role = User, content = ''hello'', turn_number = 1\<rparr>]"
    by (simp add: timeline_def)
  have one: "timeline (loadConversations (Inl (TransportError ''offline'')) ?e)
     = [\<lparr>msg_id = Some 1, conversation_id = 3, role = User, content = ''hello'', turn_number = 1\<rparr>]"
    using T tl by simp
  have two: "fst (selectConversation ?c (Inl (TransportError ''offline'')) ?e)
     = Some (TransportError ''offline'')"
    using T by simp
  from one two show ?thesis by blast
qed

end
